theory Spec2Isabelle
  imports Complex_Main "HOL-Library.Word"
begin

section \<open>The page script Home.py\<close>

text \<open>
  Home.py is a Streamlit page: the framework runs the whole script from top to bottom on
  every interaction. One run is modelled as a function of
  \<^item> the libraries the script calls into, taken as parameters: the five functions of the
    collaborator module \<open>image_colorization\<close>, numpy's array arithmetic and Python's
    float subtraction (whose results are whatever float arithmetic gives), and
    matplotlib's \<open>imshow\<close>; the calls that can raise return an exception or a value,
  \<^item> the values the widgets return in this run (the two uploads, the button, the slider),
  \<^item> the session state the run starts from.
  The run yields the widgets it rendered, in order, the calls it made to
  \<open>process_images\<close>, the session state it left, and the exception that ended it, if any.
  Streamlit's own calls and \<open>plt.subplots\<close> are taken to succeed.
\<close>

subsection \<open>Values\<close>

text \<open>
  A numpy array is a value of a type \<open>'a\<close> the model does not look into: its shape, its
  element type and its arithmetic belong to numpy. A Python float is the real number it
  stands for.
\<close>

text \<open>What a session-state key can hold: \<open>None\<close>, a flag, or an array.\<close>

datatype 'a pyval = PyNone | PyBool bool | PyArr 'a

datatype 'x exn =
    Raised 'x
  | AttributeError string
  | TypeError

text \<open>
  \<open>Raised x\<close> is an exception \<open>x\<close> coming out of one of the libraries.
  \<open>AttributeError k\<close> is \<open>st.session_state.k\<close> for a key that is not set.
  \<open>TypeError\<close> is arithmetic on a value that is not an array (\<open>None + 1\<close>; a flag under
  a buffer key, which the script never stores, is put here as well).
\<close>

text \<open>
  The paragraphs of help text the page shows, by where they stand in Home.py:
  the sidebar's two texts (lines 23-36), the notes under the SSIM and PSNR metrics
  (lines 63, 66), the texts of the histogram, difference-map, mean-difference,
  colour-channel and LAB sections (lines 70, 83-88, 90, 94, 100-105) and the credits
  line (line 152).
\<close>

datatype prose =
    About_text | How_to_use_text | Ssim_note | Psnr_note | Histograms_text
  | Difference_text | Mean_difference_note | Channels_text | Lab_text | Credits

text \<open>
  Text shown by a widget: a literal, one of the paragraphs, \<open>f"{v:.<d>f}<suffix>"\<close>
  for a number of the collaborator, or \<open>f"<prefix>{v:.<d>%}<suffix>"\<close> for the slider
  value.
\<close>

datatype 'm content =
    Lit string
  | Prose prose
  | Fixed nat 'm string
  | Percent string nat real string

text \<open>
  A matplotlib figure: one the collaborator returned, or one the script made with
  \<open>plt.subplots(rows, cols, figsize)\<close> and the operations it then applied to the
  axes (numbered from 1, in the order \<open>subplots\<close> returns them).
\<close>

datatype 'a axop = Plot_histogram 'a string | Imshow 'a | Axis_off

datatype ('g, 'a) figure =
    Made 'g
  | Subplots nat nat "nat \<times> nat" "(nat \<times> 'a axop) list"

text \<open>The data of a download button: an uploaded file object, or a bytes value.\<close>

datatype 'f payload = File 'f | Bytes "8 word list"

datatype place = Page | Sidebar | Column nat

datatype ('f, 'g, 'm, 'a) widget =
    Page_config string string
  | Title string
  | Header string
  | Subheader string
  | Info "'m content"
  | Markdown "'m content"
  | Write "'m content"
  | Metric string "'m content"
  | Columns nat
  | Columns_weighted "nat list"
  | File_uploader string "string list"
  | Button string
  | Spinner string
  | Pyplot "('g, 'a) figure"
  | Download_button string "'f payload" string string
  | Slider string real real real

subsection \<open>The libraries, the inputs and the state of a run\<close>

text \<open>
  The first five fields are the functions of \<open>image_colorization\<close>. Then numpy:
  \<open>a + c\<close>, \<open>a / c\<close> and \<open>a * c\<close> for an array and a number, \<open>a + b\<close> for two arrays
  (which raises when the shapes do not broadcast), \<open>a.astype(np.uint8)\<close>,
  \<open>a.tobytes()\<close> and the truth value of an array (which raises when it is ambiguous).
  Then Python's \<open>x - y\<close> on floats, and \<open>ax.imshow(a)\<close>, which raises on an array it
  cannot show.
\<close>

record ('f, 'g, 'm, 'a, 'x) libraries =
  process_images :: "'f \<Rightarrow> 'f \<Rightarrow> 'x + ('g \<times> 'm \<times> 'm \<times> 'a \<times> 'a \<times> 'a)"
  plot_histogram :: "'a \<Rightarrow> nat \<Rightarrow> string \<Rightarrow> 'x + unit"
  plot_difference_map :: "'a \<Rightarrow> 'a \<Rightarrow> 'x + ('g \<times> 'm)"
  plot_color_channels :: "'a \<Rightarrow> string \<Rightarrow> 'x + 'g"
  plot_lab_channels :: "'a \<Rightarrow> string \<Rightarrow> 'x + 'g"
  arr_plus :: "'a \<Rightarrow> real \<Rightarrow> 'a"
  arr_div :: "'a \<Rightarrow> real \<Rightarrow> 'a"
  arr_times :: "'a \<Rightarrow> real \<Rightarrow> 'a"
  arr_sum :: "'a \<Rightarrow> 'a \<Rightarrow> 'x + 'a"
  astype_uint8 :: "'a \<Rightarrow> 'a"
  tobytes :: "'a \<Rightarrow> 8 word list"
  arr_truth :: "'a \<Rightarrow> 'x + bool"
  float_sub :: "real \<Rightarrow> real \<Rightarrow> real"
  imshow :: "'a \<Rightarrow> 'x + unit"

text \<open>
  What the widgets return in this run: each uploader \<open>None\<close> or a file object, the
  button whether it was clicked, the slider its position (\<open>None\<close>: never moved, so
  the widget returns its default).
\<close>

record 'f inputs =
  src_upload :: "'f option"
  tar_upload :: "'f option"
  button_clicked :: bool
  slider_position :: "real option"

record ('f, 'g, 'm, 'a) world =
  rendered :: "(place \<times> ('f, 'g, 'm, 'a) widget) list"
  session :: "string \<rightharpoonup> 'a pyval"
  calls :: "('f \<times> 'f) list"

type_synonym ('f, 'g, 'm, 'a, 'x, 'r) script =
  "('f, 'g, 'm, 'a) world \<Rightarrow> ('x exn + 'r) \<times> ('f, 'g, 'm, 'a) world"

definition ret :: "'r \<Rightarrow> ('f, 'g, 'm, 'a, 'x, 'r) script" where
  "ret v = (\<lambda>w. (Inr v, w))"

definition raise :: "'x exn \<Rightarrow> ('f, 'g, 'm, 'a, 'x, 'r) script" where
  "raise e = (\<lambda>w. (Inl e, w))"

text \<open>Sequencing: an exception ends the run where it is raised; nothing catches it.\<close>

definition bnd ::
  "('f, 'g, 'm, 'a, 'x, 'r) script \<Rightarrow> ('r \<Rightarrow> ('f, 'g, 'm, 'a, 'x, 'q) script)
     \<Rightarrow> ('f, 'g, 'm, 'a, 'x, 'q) script"
where
  "bnd m k = (\<lambda>w. case m w of (Inl e, w') \<Rightarrow> (Inl e, w') | (Inr v, w') \<Rightarrow> k v w')"

fun seq :: "('f, 'g, 'm, 'a, 'x, unit) script list \<Rightarrow> ('f, 'g, 'm, 'a, 'x, unit) script" where
  "seq [] = ret ()"
| "seq (m # ms) = bnd m (\<lambda>_. seq ms)"

declare seq.simps [simp del]

definition emit :: "place \<Rightarrow> ('f, 'g, 'm, 'a) widget \<Rightarrow> ('f, 'g, 'm, 'a, 'x, unit) script" where
  "emit p x = (\<lambda>w. (Inr (), w\<lparr>rendered := rendered w @ [(p, x)]\<rparr>))"

text \<open>A call into a library: its exception, if any, is the script's.\<close>

definition external :: "'x + 'r \<Rightarrow> ('f, 'g, 'm, 'a, 'x, 'r) script" where
  "external r = (case r of Inl x \<Rightarrow> raise (Raised x) | Inr v \<Rightarrow> ret v)"

subsection \<open>Session state\<close>

text \<open>\<open>if k not in st.session_state: st.session_state.k = v\<close>\<close>

definition default_key :: "string \<Rightarrow> 'a pyval \<Rightarrow> ('f, 'g, 'm, 'a, 'x, unit) script" where
  "default_key k v =
     (\<lambda>w. (Inr (), if session w k = None then w\<lparr>session := (session w)(k \<mapsto> v)\<rparr> else w))"

text \<open>\<open>st.session_state.k = v\<close>\<close>

definition set_key :: "string \<Rightarrow> 'a pyval \<Rightarrow> ('f, 'g, 'm, 'a, 'x, unit) script" where
  "set_key k v = (\<lambda>w. (Inr (), w\<lparr>session := (session w)(k \<mapsto> v)\<rparr>))"

text \<open>\<open>st.session_state.k\<close>\<close>

definition get_key :: "string \<Rightarrow> ('f, 'g, 'm, 'a, 'x, 'a pyval) script" where
  "get_key k =
     (\<lambda>w. case session w k of None \<Rightarrow> (Inl (AttributeError k), w) | Some v \<Rightarrow> (Inr v, w))"

text \<open>Lines 12-19.\<close>

definition init_session :: "('f, 'g, 'm, 'a, 'x, unit) script" where
  "init_session =
     seq [default_key ''processed'' (PyBool False),
          default_key ''src'' PyNone,
          default_key ''gen'' PyNone,
          default_key ''tar'' PyNone]"

subsection \<open>Values computed with the libraries\<close>

text \<open>Python's truth value, as \<open>not\<close> and \<open>if\<close> take it.\<close>

fun truthy :: "('f, 'g, 'm, 'a, 'x) libraries \<Rightarrow> 'a pyval \<Rightarrow> 'x exn + bool" where
  "truthy env PyNone = Inr False"
| "truthy env (PyBool b) = Inr b"
| "truthy env (PyArr a) = (case arr_truth env a of Inl x \<Rightarrow> Inl (Raised x) | Inr t \<Rightarrow> Inr t)"

text \<open>\<open>(a + 1) / 2\<close>\<close>

definition rescale :: "('f, 'g, 'm, 'a, 'x) libraries \<Rightarrow> 'a \<Rightarrow> 'a" where
  "rescale env a = arr_div env (arr_plus env a 1) 2"

text \<open>A session value used as an operand of array arithmetic.\<close>

fun operand :: "'a pyval \<Rightarrow> 'x exn + 'a" where
  "operand (PyArr a) = Inr a"
| "operand PyNone = Inl TypeError"
| "operand (PyBool b) = Inl TypeError"

text \<open>Lines 122-123: \<open>((gen + 1) / 2 * 255).astype(np.uint8).tobytes()\<close>\<close>

definition gen_img_bytes :: "('f, 'g, 'm, 'a, 'x) libraries \<Rightarrow> 'a \<Rightarrow> 8 word list" where
  "gen_img_bytes env gen =
     tobytes env (astype_uint8 env (arr_times env (rescale env gen) 255))"

text \<open>
  Line 144: the image handed to \<open>imshow\<close>, from the two arrays and the slider value:
  \<open>((src + 1) / 2) * (1 - v) + ((gen + 1) / 2) * v\<close>
\<close>

definition blend :: "('f, 'g, 'm, 'a, 'x) libraries \<Rightarrow> 'a \<Rightarrow> 'a \<Rightarrow> real \<Rightarrow> 'x + 'a" where
  "blend env a b v =
     arr_sum env (arr_times env (rescale env a) (float_sub env 1 v))
                 (arr_times env (rescale env b) v)"

subsection \<open>The sections of the page\<close>

text \<open>Lines 22-36.\<close>

definition sidebar :: "('f, 'g, 'm, 'a, 'x, unit) script" where
  "sidebar =
     seq [emit Sidebar (Header ''About''),
          emit Sidebar (Info (Prose About_text)),
          emit Sidebar (Header ''How to Use''),
          emit Sidebar (Markdown (Prose How_to_use_text))]"

definition image_types :: "string list" where
  "image_types = [''png'', ''jpg'', ''jpeg'']"

text \<open>Lines 39-45. The values the two widgets return are the run's uploads.\<close>

definition uploaders :: "('f, 'g, 'm, 'a, 'x, unit) script" where
  "uploaders =
     seq [emit Page (Columns 2),
          emit (Column 1) (File_uploader ''Upload Source (Grayscale) Image'' image_types),
          emit (Column 2) (File_uploader ''Upload Target (Color) Image'' image_types)]"

text \<open>Line 50: the call, recorded with its arguments.\<close>

definition call_process_images ::
  "('f, 'g, 'm, 'a, 'x) libraries \<Rightarrow> 'f \<Rightarrow> 'f
     \<Rightarrow> ('f, 'g, 'm, 'a, 'x, 'g \<times> 'm \<times> 'm \<times> 'a \<times> 'a \<times> 'a) script"
where
  "call_process_images env f g =
     (\<lambda>w. external (process_images env f g) (w\<lparr>calls := calls w @ [(f, g)]\<rparr>))"

text \<open>Lines 57-66.\<close>

definition accuracy :: "'g \<Rightarrow> 'm \<Rightarrow> 'm \<Rightarrow> ('f, 'g, 'm, 'a, 'x, unit) script" where
  "accuracy fig ssim_value psnr_value =
     seq [emit Page (Pyplot (Made fig)),
          emit Page (Subheader ''Accuracy Metrics''),
          emit Page (Columns 2),
          emit (Column 1) (Metric ''SSIM'' (Fixed 4 ssim_value [])),
          emit (Column 1) (Info (Prose Ssim_note)),
          emit (Column 2) (Metric ''PSNR'' (Fixed 2 psnr_value '' dB'')),
          emit (Column 2) (Info (Prose Psnr_note))]"

text \<open>Lines 68-75.\<close>

definition histograms ::
  "('f, 'g, 'm, 'a, 'x) libraries \<Rightarrow> 'a \<Rightarrow> 'a \<Rightarrow> 'a \<Rightarrow> ('f, 'g, 'm, 'a, 'x, unit) script"
where
  "histograms env src gen tar =
     seq [emit Page (Subheader ''Color Histograms''),
          emit Page (Write (Prose Histograms_text)),
          external (plot_histogram env (rescale env src) 1 ''Source''),
          external (plot_histogram env (rescale env gen) 2 ''Generated''),
          external (plot_histogram env (rescale env tar) 3 ''Target''),
          emit Page (Pyplot (Subplots 1 3 (15, 5)
            [(1, Plot_histogram (rescale env src) ''Source''),
             (2, Plot_histogram (rescale env gen) ''Generated''),
             (3, Plot_histogram (rescale env tar) ''Target'')]))]"

text \<open>Lines 77-90.\<close>

definition difference ::
  "('f, 'g, 'm, 'a, 'x) libraries \<Rightarrow> 'a \<Rightarrow> 'a \<Rightarrow> ('f, 'g, 'm, 'a, 'x, unit) script"
where
  "difference env gen tar =
     seq [emit Page (Subheader ''Difference Map''),
          bnd (external (plot_difference_map env (rescale env tar) (rescale env gen)))
            (\<lambda>(diff_fig, mean_diff).
               seq [emit Page (Columns_weighted [1, 2]),
                    emit (Column 1) (Pyplot (Made diff_fig)),
                    emit (Column 2) (Write (Prose Difference_text)),
                    emit (Column 2) (Metric ''Mean Difference'' (Fixed 4 mean_diff [])),
                    emit (Column 2) (Info (Prose Mean_difference_note))])]"

text \<open>Lines 92-96.\<close>

definition channels ::
  "('f, 'g, 'm, 'a, 'x) libraries \<Rightarrow> 'a \<Rightarrow> 'a \<Rightarrow> ('f, 'g, 'm, 'a, 'x, unit) script"
where
  "channels env gen tar =
     seq [emit Page (Subheader ''Color Channels''),
          emit Page (Write (Prose Channels_text)),
          bnd (external (plot_color_channels env (rescale env gen) ''Generated Image Color Channels''))
            (\<lambda>fig. emit Page (Pyplot (Made fig))),
          bnd (external (plot_color_channels env (rescale env tar) ''Target Image Color Channels''))
            (\<lambda>fig. emit Page (Pyplot (Made fig)))]"

text \<open>Lines 98-107.\<close>

definition lab ::
  "('f, 'g, 'm, 'a, 'x) libraries \<Rightarrow> 'a \<Rightarrow> 'a \<Rightarrow> ('f, 'g, 'm, 'a, 'x, unit) script"
where
  "lab env gen tar =
     seq [emit Page (Subheader ''LAB Color Space''),
          emit Page (Write (Prose Lab_text)),
          bnd (external (plot_lab_channels env (rescale env gen) ''Generated Image in LAB Color Space''))
            (\<lambda>fig. emit Page (Pyplot (Made fig))),
          bnd (external (plot_lab_channels env (rescale env tar) ''Target Image in LAB Color Space''))
            (\<lambda>fig. emit Page (Pyplot (Made fig)))]"

text \<open>Lines 109-136.\<close>

definition downloads ::
  "('f, 'g, 'm, 'a, 'x) libraries \<Rightarrow> 'f \<Rightarrow> 'f \<Rightarrow> 'a \<Rightarrow> ('f, 'g, 'm, 'a, 'x, unit) script"
where
  "downloads env src_image tar_image gen =
     seq [emit Page (Subheader ''Download Images''),
          emit Page (Columns 3),
          emit (Column 1) (Download_button ''Download Source Image'' (File src_image)
            ''source_image.png'' ''image/png''),
          emit (Column 2) (Download_button ''Download Generated Image'' (Bytes (gen_img_bytes env gen))
            ''generated_image.png'' ''image/png''),
          emit (Column 3) (Download_button ''Download Target Image'' (File tar_image)
            ''target_image.png'' ''image/png'')]"

text \<open>Lines 49-136: the body of the spinner block.\<close>

definition processing ::
  "('f, 'g, 'm, 'a, 'x) libraries \<Rightarrow> 'f \<Rightarrow> 'f \<Rightarrow> ('f, 'g, 'm, 'a, 'x, unit) script"
where
  "processing env src_image tar_image =
     seq [emit Page (Spinner ''Processing images...''),
          bnd (call_process_images env src_image tar_image)
            (\<lambda>(fig, ssim_value, psnr_value, src, gen, tar).
               seq [set_key ''processed'' (PyBool True),
                    set_key ''src'' (PyArr src),
                    set_key ''gen'' (PyArr gen),
                    set_key ''tar'' (PyArr tar),
                    accuracy fig ssim_value psnr_value,
                    histograms env src gen tar,
                    difference env gen tar,
                    channels env gen tar,
                    lab env gen tar,
                    downloads env src_image tar_image gen])]"

text \<open>
  Line 142: \<open>st.slider(label, 0.0, 1.0, 0.5)\<close> returns the position, or the default
  while the slider has not been moved.
\<close>

definition slider_value :: "'f inputs \<Rightarrow> real" where
  "slider_value inp = (case slider_position inp of None \<Rightarrow> 0.5 | Some v \<Rightarrow> v)"

text \<open>A step of the script itself that may raise.\<close>

definition raise_or :: "'x exn + 'r \<Rightarrow> ('f, 'g, 'm, 'a, 'x, 'r) script" where
  "raise_or r = (case r of Inl e \<Rightarrow> raise e | Inr v \<Rightarrow> ret v)"

text \<open>
  Lines 139-146. The operands are read in the order Python evaluates the expression:
  the source buffer and its arithmetic first, then the generated one, then the sum;
  \<open>imshow\<close> gets the result, and only when it returns is the figure put on the page.
\<close>

definition comparison ::
  "('f, 'g, 'm, 'a, 'x) libraries \<Rightarrow> 'f inputs \<Rightarrow> ('f, 'g, 'm, 'a, 'x, unit) script"
where
  "comparison env inp =
     bnd (get_key ''processed'') (\<lambda>p.
     bnd (raise_or (truthy env p)) (\<lambda>t.
       if t then
         seq [emit Page (Subheader ''Image Comparison Slider''),
              emit Page (Slider ''Slide to compare original and generated images'' 0 1 0.5),
              bnd (get_key ''src'') (\<lambda>s.
              bnd (raise_or (operand s)) (\<lambda>a.
              bnd (get_key ''gen'') (\<lambda>g.
              bnd (raise_or (operand g)) (\<lambda>b.
              bnd (external (blend env a b (slider_value inp))) (\<lambda>img.
              bnd (external (imshow env img)) (\<lambda>_.
                seq [emit Page (Pyplot (Subplots 1 1 (10, 5) [(1, Imshow img), (1, Axis_off)])),
                     emit Page (Write (Percent ''Showing '' 0 (slider_value inp)
                       '' of the generated image.''))]))))))]
       else ret ()))"

text \<open>
  Line 48: \<open>st.button("Process Images") or not st.session_state.processed\<close>. The button
  is rendered in any case; the flag is read only when the button returns \<open>False\<close>.
\<close>

definition fires ::
  "('f, 'g, 'm, 'a, 'x) libraries \<Rightarrow> 'f inputs \<Rightarrow> ('f, 'g, 'm, 'a, 'x, bool) script"
where
  "fires env inp =
     bnd (emit Page (Button ''Process Images'')) (\<lambda>_.
       if button_clicked inp then ret True
       else bnd (get_key ''processed'') (\<lambda>p.
            bnd (raise_or (truthy env p)) (\<lambda>t. ret (\<not> t))))"

text \<open>Lines 47-149. An uploaded file object is true as a condition; \<open>None\<close> is not.\<close>

definition body ::
  "('f, 'g, 'm, 'a, 'x) libraries \<Rightarrow> 'f inputs \<Rightarrow> ('f, 'g, 'm, 'a, 'x, unit) script"
where
  "body env inp =
     (case (src_upload inp, tar_upload inp) of
        (Some src_image, Some tar_image) \<Rightarrow>
          seq [bnd (fires env inp) (\<lambda>go.
                 if go then processing env src_image tar_image else ret ()),
               comparison env inp]
      | _ \<Rightarrow>
          emit Page (Info (Lit
            ''Please upload both source and target images to begin the analysis.'')))"

text \<open>The whole script, lines 7-152.\<close>

definition home ::
  "('f, 'g, 'm, 'a, 'x) libraries \<Rightarrow> 'f inputs \<Rightarrow> ('f, 'g, 'm, 'a, 'x, unit) script"
where
  "home env inp =
     seq [emit Page (Page_config ''SAR Image Colorization - Comparison'' ''wide''),
          emit Page (Title ''Image Colorization of SAR Greyscale images''),
          init_session,
          sidebar,
          uploaders,
          body env inp,
          emit Page (Markdown (Lit ''---'')),
          emit Page (Markdown (Prose Credits))]"

text \<open>One run of the page from session state \<open>s\<close>.\<close>

definition run ::
  "('f, 'g, 'm, 'a, 'x) libraries \<Rightarrow> 'f inputs \<Rightarrow> (string \<rightharpoonup> 'a pyval)
     \<Rightarrow> ('x exn + unit) \<times> ('f, 'g, 'm, 'a) world"
where
  "run env inp s = home env inp \<lparr>rendered = [], session = s, calls = []\<rparr>"

subsection \<open>What the parts of the page amount to\<close>

text \<open>The session state after lines 12-19, from the state \<open>s\<close> before them.\<close>

definition with_default :: "string \<Rightarrow> 'a pyval \<Rightarrow> (string \<rightharpoonup> 'a pyval) \<Rightarrow> (string \<rightharpoonup> 'a pyval)" where
  "with_default k v s = (if s k = None then s(k \<mapsto> v) else s)"

definition init_state :: "(string \<rightharpoonup> 'a pyval) \<Rightarrow> (string \<rightharpoonup> 'a pyval)" where
  "init_state s =
     with_default ''tar'' PyNone (with_default ''gen'' PyNone
       (with_default ''src'' PyNone (with_default ''processed'' (PyBool False) s)))"

text \<open>The session state after the four assignments of lines 52-55.\<close>

definition stored :: "(string \<rightharpoonup> 'a pyval) \<Rightarrow> 'a \<Rightarrow> 'a \<Rightarrow> 'a \<Rightarrow> (string \<rightharpoonup> 'a pyval)" where
  "stored s src gen tar =
     s(''processed'' \<mapsto> PyBool True, ''src'' \<mapsto> PyArr src, ''gen'' \<mapsto> PyArr gen,
       ''tar'' \<mapsto> PyArr tar)"

text \<open>
  The value of the condition of line 48 in session state \<open>s\<close>: whether processing
  fires, or the exception that reading the flag raises.
\<close>

definition decide ::
  "('f, 'g, 'm, 'a, 'x) libraries \<Rightarrow> 'f inputs \<Rightarrow> (string \<rightharpoonup> 'a pyval) \<Rightarrow> 'x exn + bool"
where
  "decide env inp s =
     (if button_clicked inp then Inr True
      else case s ''processed'' of
             None \<Rightarrow> Inl (AttributeError ''processed'')
           | Some p \<Rightarrow> (case truthy env p of Inl e \<Rightarrow> Inl e | Inr t \<Rightarrow> Inr (\<not> t)))"

text \<open>The widgets of lines 7-45, which every run renders first.\<close>

definition page_top :: "(place \<times> ('f, 'g, 'm, 'a) widget) list" where
  "page_top =
     [(Page, Page_config ''SAR Image Colorization - Comparison'' ''wide''),
      (Page, Title ''Image Colorization of SAR Greyscale images''),
      (Sidebar, Header ''About''),
      (Sidebar, Info (Prose About_text)),
      (Sidebar, Header ''How to Use''),
      (Sidebar, Markdown (Prose How_to_use_text)),
      (Page, Columns 2),
      (Column 1, File_uploader ''Upload Source (Grayscale) Image'' [''png'', ''jpg'', ''jpeg'']),
      (Column 2, File_uploader ''Upload Target (Color) Image'' [''png'', ''jpg'', ''jpeg''])]"

text \<open>The widgets of lines 57-66.\<close>

definition accuracy_widgets :: "'g \<Rightarrow> 'm \<Rightarrow> 'm \<Rightarrow> (place \<times> ('f, 'g, 'm, 'a) widget) list" where
  "accuracy_widgets fig ssim_value psnr_value =
     [(Page, Pyplot (Made fig)),
      (Page, Subheader ''Accuracy Metrics''),
      (Page, Columns 2),
      (Column 1, Metric ''SSIM'' (Fixed 4 ssim_value [])),
      (Column 1, Info (Prose Ssim_note)),
      (Column 2, Metric ''PSNR'' (Fixed 2 psnr_value '' dB'')),
      (Column 2, Info (Prose Psnr_note))]"

text \<open>The widgets of lines 68-107, from the arrays and what the plotting helpers returned.\<close>

definition analysis_widgets ::
  "('f, 'g, 'm, 'a, 'x) libraries \<Rightarrow> 'a \<Rightarrow> 'a \<Rightarrow> 'a \<Rightarrow> 'g \<Rightarrow> 'm \<Rightarrow> 'g \<Rightarrow> 'g \<Rightarrow> 'g \<Rightarrow> 'g
     \<Rightarrow> (place \<times> ('f, 'g, 'm, 'a) widget) list"
where
  "analysis_widgets env src gen tar diff_fig mean_diff chan_gen chan_tar lab_gen lab_tar =
     [(Page, Subheader ''Color Histograms''),
      (Page, Write (Prose Histograms_text)),
      (Page, Pyplot (Subplots 1 3 (15, 5)
         [(1, Plot_histogram (rescale env src) ''Source''),
          (2, Plot_histogram (rescale env gen) ''Generated''),
          (3, Plot_histogram (rescale env tar) ''Target'')])),
      (Page, Subheader ''Difference Map''),
      (Page, Columns_weighted [1, 2]),
      (Column 1, Pyplot (Made diff_fig)),
      (Column 2, Write (Prose Difference_text)),
      (Column 2, Metric ''Mean Difference'' (Fixed 4 mean_diff [])),
      (Column 2, Info (Prose Mean_difference_note)),
      (Page, Subheader ''Color Channels''),
      (Page, Write (Prose Channels_text)),
      (Page, Pyplot (Made chan_gen)),
      (Page, Pyplot (Made chan_tar)),
      (Page, Subheader ''LAB Color Space''),
      (Page, Write (Prose Lab_text)),
      (Page, Pyplot (Made lab_gen)),
      (Page, Pyplot (Made lab_tar))]"

text \<open>The widgets of lines 109-136.\<close>

definition download_widgets ::
  "('f, 'g, 'm, 'a, 'x) libraries \<Rightarrow> 'f \<Rightarrow> 'f \<Rightarrow> 'a \<Rightarrow> (place \<times> ('f, 'g, 'm, 'a) widget) list"
where
  "download_widgets env src_image tar_image gen =
     [(Page, Subheader ''Download Images''),
      (Page, Columns 3),
      (Column 1, Download_button ''Download Source Image'' (File src_image)
         ''source_image.png'' ''image/png''),
      (Column 2, Download_button ''Download Generated Image'' (Bytes (gen_img_bytes env gen))
         ''generated_image.png'' ''image/png''),
      (Column 3, Download_button ''Download Target Image'' (File tar_image)
         ''target_image.png'' ''image/png'')]"

text \<open>
  The widgets of lines 141-146: the slider (lines 141-142), and with it the figure and the
  caption (lines 143-146), from the slider value and the blended image.
\<close>

definition slider_widgets :: "(place \<times> ('f, 'g, 'm, 'a) widget) list" where
  "slider_widgets =
     [(Page, Subheader ''Image Comparison Slider''),
      (Page, Slider ''Slide to compare original and generated images'' 0 1 0.5)]"

definition comparison_widgets :: "real \<Rightarrow> 'a \<Rightarrow> (place \<times> ('f, 'g, 'm, 'a) widget) list" where
  "comparison_widgets v img =
     slider_widgets @
     [(Page, Pyplot (Subplots 1 1 (10, 5) [(1, Imshow img), (1, Axis_off)])),
      (Page, Write (Percent ''Showing '' 0 v '' of the generated image.''))]"

text \<open>The widgets of lines 151-152, which a run that reaches the end renders last.\<close>

definition page_bottom :: "(place \<times> ('f, 'g, 'm, 'a) widget) list" where
  "page_bottom = [(Page, Markdown (Lit ''---'')), (Page, Markdown (Prose Credits))]"

subsection \<open>Notions the properties are stated with\<close>

text \<open>Whether a widget is a file uploader.\<close>

fun is_uploader :: "('f, 'g, 'm, 'a) widget \<Rightarrow> bool" where
  "is_uploader (File_uploader l ts) = True"
| "is_uploader _ = False"

text \<open>Whether a widget is a download button.\<close>

fun is_download :: "('f, 'g, 'm, 'a) widget \<Rightarrow> bool" where
  "is_download (Download_button l d n m) = True"
| "is_download _ = False"

text \<open>
  World \<open>w'\<close> comes after \<open>w\<close> by rendering only: same session state, same calls, and
  more widgets rendered, none of them an uploader.
\<close>

definition follows :: "('f, 'g, 'm, 'a) world \<Rightarrow> ('f, 'g, 'm, 'a) world \<Rightarrow> bool" where
  "follows w w' =
     (session w' = session w \<and> calls w' = calls w \<and>
      (\<exists>ws. rendered w' = rendered w @ ws \<and> (\<forall>x \<in> set ws. \<not> is_uploader (snd x))))"

text \<open>A part of the script that only renders, wherever it is started.\<close>

definition quiet :: "('f, 'g, 'm, 'a, 'x, 'r) script \<Rightarrow> bool" where
  "quiet m = (\<forall>w. follows w (snd (m w)))"

text \<open>A session value that is set and is not \<open>None\<close>.\<close>

definition holds_value :: "'a pyval option \<Rightarrow> bool" where
  "holds_value v = (case v of None \<Rightarrow> False | Some PyNone \<Rightarrow> False | Some _ \<Rightarrow> True)"

text \<open>
  The invariant of the session state: when the flag is \<open>True\<close>, the three buffers are
  set and not \<open>None\<close>.
\<close>

definition buffers_ready :: "(string \<rightharpoonup> 'a pyval) \<Rightarrow> bool" where
  "buffers_ready s =
     (if s ''processed'' = Some (PyBool True)
      then holds_value (s ''src'') \<and> holds_value (s ''gen'') \<and> holds_value (s ''tar'')
      else True)"

subsection \<open>A concrete collaborator, inputs and session states\<close>

text \<open>
  Files, figures and exceptions are numbered; the numbers of the collaborator are
  integers. \<open>process_images\<close> raises on file 0 and returns three-element arrays otherwise.
  An array is a list of real numbers, and the arithmetic on it is exact: a stand-in for
  numpy to run the script on, nothing the properties below rely on.
\<close>

definition demo_env :: "(nat, nat, int, real list, nat) libraries" where
  "demo_env =
     \<lparr>process_images = (\<lambda>f g. if f = 0 then Inl 7
                          else Inr (f + g, 1, 2, [- 1, 0, 1], [1, 0, - 1], [0, 0, 0])),
      plot_histogram = (\<lambda>a i t. Inr ()),
      plot_difference_map = (\<lambda>a b. Inr (50, 3)),
      plot_color_channels = (\<lambda>a t. Inr (60 + length t)),
      plot_lab_channels = (\<lambda>a t. Inr (70 + length t)),
      arr_plus = (\<lambda>a c. map (\<lambda>x. x + c) a),
      arr_div = (\<lambda>a c. map (\<lambda>x. x / c) a),
      arr_times = (\<lambda>a c. map (\<lambda>x. x * c) a),
      arr_sum = (\<lambda>a b. if length a = length b then Inr (map (\<lambda>(x, y). x + y) (zip a b))
                       else Inl 8),
      astype_uint8 = (\<lambda>a. map (\<lambda>x. real_of_int (\<lfloor>x\<rfloor> mod 256)) a),
      tobytes = (\<lambda>a. map (\<lambda>x. word_of_int \<lfloor>x\<rfloor>) a),
      arr_truth = (\<lambda>a. case a of [] \<Rightarrow> Inr False | [x] \<Rightarrow> Inr (x \<noteq> 0) | _ \<Rightarrow> Inl 9),
      float_sub = (\<lambda>x y. x - y),
      imshow = (\<lambda>a. if a = [] then Inl 10 else Inr ())\<rparr>"

text \<open>
  Inputs: both images uploaded and nothing touched; the target upload missing; a source
  file on which the concrete \<open>process_images\<close> raises; the slider moved to its left end,
  and to its right end.
\<close>

definition both_uploaded :: "nat inputs" where
  "both_uploaded =
     \<lparr>src_upload = Some 1, tar_upload = Some 2, button_clicked = False,
      slider_position = None\<rparr>"

definition target_missing :: "nat inputs" where
  "target_missing =
     \<lparr>src_upload = Some 1, tar_upload = None, button_clicked = True,
      slider_position = None\<rparr>"

definition source_unreadable :: "nat inputs" where
  "source_unreadable =
     \<lparr>src_upload = Some 0, tar_upload = Some 2, button_clicked = False,
      slider_position = None\<rparr>"



text \<open>The session state right after a first render, and one left by a processing run.\<close>

definition fresh_state :: "string \<rightharpoonup> real list pyval" where
  "fresh_state =
     [''processed'' \<mapsto> PyBool False, ''src'' \<mapsto> PyNone, ''gen'' \<mapsto> PyNone, ''tar'' \<mapsto> PyNone]"

definition processed_state :: "string \<rightharpoonup> real list pyval" where
  "processed_state =
     [''processed'' \<mapsto> PyBool True, ''src'' \<mapsto> PyArr [- 1, 0, 1], ''gen'' \<mapsto> PyArr [1, 0, - 1],
      ''tar'' \<mapsto> PyArr [0, 0, 0]]"

section \<open>Properties\<close>

subsection \<open>Running the parts\<close>

lemma bnd_apply:
  "bnd m k w = (case m w of (Inl e, w') \<Rightarrow> (Inl e, w') | (Inr v, w') \<Rightarrow> k v w')"
  by (simp add: bnd_def)

lemma seq_Nil_apply: "seq [] w = (Inr (), w)"
  by (simp add: seq.simps ret_def)

lemma seq_Cons_apply:
  "seq (m # ms) w = (case m w of (Inl e, w') \<Rightarrow> (Inl e, w') | (Inr v, w') \<Rightarrow> seq ms w')"
  by (simp add: seq.simps bnd_def)

lemma seq_step: "m w = (Inr (), w') \<Longrightarrow> seq (m # ms) w = seq ms w'"
  by (simp add: seq.simps bnd_def)

lemma seq_emit:
  "seq (emit p x # ms) \<lparr>rendered = r, session = s, calls = c\<rparr> =
     seq ms \<lparr>rendered = r @ [(p, x)], session = s, calls = c\<rparr>"
  by (simp add: seq.simps bnd_def emit_def)

lemma seq_set_key:
  "seq (set_key k v # ms) \<lparr>rendered = r, session = s, calls = c\<rparr> =
     seq ms \<lparr>rendered = r, session = s(k \<mapsto> v), calls = c\<rparr>"
  by (simp add: seq.simps bnd_def set_key_def)

lemma seq_default_key:
  "seq (default_key k v # ms) \<lparr>rendered = r, session = s, calls = c\<rparr> =
     seq ms \<lparr>rendered = r, session = with_default k v s, calls = c\<rparr>"
  by (simp add: seq.simps bnd_def default_key_def with_default_def)

lemma init_session_apply:
  "init_session \<lparr>rendered = r, session = s, calls = c\<rparr> =
     (Inr (), \<lparr>rendered = r, session = init_state s, calls = c\<rparr>)"
  by (simp add: init_session_def init_state_def seq_default_key seq_Nil_apply)

lemma sidebar_apply:
  "sidebar \<lparr>rendered = r, session = s, calls = c\<rparr> =
     (Inr (), \<lparr>rendered = r @
        [(Sidebar, Header ''About''), (Sidebar, Info (Prose About_text)),
         (Sidebar, Header ''How to Use''), (Sidebar, Markdown (Prose How_to_use_text))],
      session = s, calls = c\<rparr>)"
  by (simp add: sidebar_def seq_emit seq_Nil_apply)

lemma uploaders_apply:
  "uploaders \<lparr>rendered = r, session = s, calls = c\<rparr> =
     (Inr (), \<lparr>rendered = r @
        [(Page, Columns 2),
         (Column 1, File_uploader ''Upload Source (Grayscale) Image'' [''png'', ''jpg'', ''jpeg'']),
         (Column 2, File_uploader ''Upload Target (Color) Image'' [''png'', ''jpg'', ''jpeg''])],
      session = s, calls = c\<rparr>)"
  by (simp add: uploaders_def image_types_def seq_emit seq_Nil_apply)

lemma seq_init_session:
  "seq (init_session # ms) \<lparr>rendered = r, session = s, calls = c\<rparr> =
     seq ms \<lparr>rendered = r, session = init_state s, calls = c\<rparr>"
  by (rule seq_step) (rule init_session_apply)

lemma seq_sidebar:
  "seq (sidebar # ms) \<lparr>rendered = r, session = s, calls = c\<rparr> =
     seq ms \<lparr>rendered = r @
        [(Sidebar, Header ''About''), (Sidebar, Info (Prose About_text)),
         (Sidebar, Header ''How to Use''), (Sidebar, Markdown (Prose How_to_use_text))],
      session = s, calls = c\<rparr>"
  by (rule seq_step) (rule sidebar_apply)

lemma seq_uploaders:
  "seq (uploaders # ms) \<lparr>rendered = r, session = s, calls = c\<rparr> =
     seq ms \<lparr>rendered = r @
        [(Page, Columns 2),
         (Column 1, File_uploader ''Upload Source (Grayscale) Image'' [''png'', ''jpg'', ''jpeg'']),
         (Column 2, File_uploader ''Upload Target (Color) Image'' [''png'', ''jpg'', ''jpeg''])],
      session = s, calls = c\<rparr>"
  by (rule seq_step) (rule uploaders_apply)

text \<open>
  Every run is the body of the page (lines 47-149) started after the fixed top, followed
  by the fixed bottom unless the body raised.
\<close>

lemma run_apply:
  "run env inp s =
     (case body env inp \<lparr>rendered = page_top, session = init_state s, calls = []\<rparr> of
        (Inl e, w') \<Rightarrow> (Inl e, w')
      | (Inr v, w') \<Rightarrow> (Inr (), w'\<lparr>rendered := rendered w' @ page_bottom\<rparr>))"
  unfolding run_def home_def
  apply (simp only: seq_emit seq_init_session seq_sidebar seq_uploaders
      append_Nil append_Cons append_assoc)
  apply (subst seq_Cons_apply)
  apply (cases "body env inp \<lparr>rendered = page_top, session = init_state s, calls = []\<rparr>")
  subgoal for a b
    apply (cases a; cases b)
    apply (simp_all add: seq_emit seq_Nil_apply page_top_def page_bottom_def)
    done
  done

lemma body_without_uploads:
  assumes "src_upload inp = None \<or> tar_upload inp = None"
  shows "body env inp \<lparr>rendered = r, session = s, calls = c\<rparr> =
     (Inr (), \<lparr>rendered = r @ [(Page, Info (Lit
        ''Please upload both source and target images to begin the analysis.''))],
      session = s, calls = c\<rparr>)"
  using assms by (auto simp add: body_def emit_def split: option.splits)

lemma no_upload_run:
  assumes "src_upload inp = None \<or> tar_upload inp = None"
  shows "run env inp s =
     (Inr (), \<lparr>rendered = page_top @ [(Page, Info (Lit
        ''Please upload both source and target images to begin the analysis.''))] @ page_bottom,
      session = init_state s, calls = []\<rparr>)"
  by (simp add: run_apply body_without_uploads [OF assms])

subsection \<open>Runs without both uploads\<close>

text \<open>
  C8. When the source upload or the target upload is absent, \<open>process_images\<close> is not
  called (the list of calls is empty), the run ends normally, the session state is the
  initialised one, and between the fixed top and bottom of the page exactly one widget is
  rendered: the informational prompt asking for both uploads.
\<close>

theorem no_processing_without_both_uploads:
  assumes "src_upload inp = None \<or> tar_upload inp = None"
  shows "run env inp s =
     (Inr (), \<lparr>rendered = page_top @ [(Page, Info (Lit
        ''Please upload both source and target images to begin the analysis.''))] @ page_bottom,
      session = init_state s, calls = []\<rparr>)"
  by (rule no_upload_run [OF assms])

theorem no_processing_without_both_uploads_witness:
  "(src_upload target_missing = None \<or> tar_upload target_missing = None) \<and>
   calls (snd (run demo_env target_missing Map.empty)) = [] \<and>
   rendered (snd (run demo_env target_missing Map.empty)) =
     page_top @ [(Page, Info (Lit
        ''Please upload both source and target images to begin the analysis.''))] @ page_bottom"
  using no_processing_without_both_uploads [of target_missing demo_env Map.empty]
  by (simp add: target_missing_def)

subsection \<open>Parts that only render\<close>

lemma follows_refl: "follows w w"
  by (simp add: follows_def)

lemma follows_trans: "follows w1 w2 \<Longrightarrow> follows w2 w3 \<Longrightarrow> follows w1 w3"
  by (fastforce simp add: follows_def)

lemma quiet_ret: "quiet (ret v)"
  by (simp add: quiet_def ret_def follows_refl)

lemma quiet_raise: "quiet (raise e)"
  by (simp add: quiet_def raise_def follows_refl)

lemma quiet_external: "quiet (external r)"
  by (cases r) (simp_all add: external_def quiet_ret quiet_raise)

lemma quiet_raise_or: "quiet (raise_or r)"
  by (cases r) (simp_all add: raise_or_def quiet_ret quiet_raise)

lemma quiet_get_key: "quiet (get_key k)"
  by (simp add: quiet_def get_key_def follows_refl split: option.splits)

lemma quiet_emit: "\<not> is_uploader x \<Longrightarrow> quiet (emit p x)"
  by (simp add: quiet_def emit_def follows_def)

lemma quiet_bnd:
  assumes "quiet m" and "\<And>v. quiet (k v)"
  shows "quiet (bnd m k)"
proof -
  have "follows w (snd (bnd m k w))" for w
  proof (cases "m w")
    case (Pair a w')
    have 1: "follows w w'" using assms(1) Pair by (auto simp add: quiet_def dest: spec [of _ w])
    show ?thesis
    proof (cases a)
      case (Inl e)
      then show ?thesis using Pair 1 by (simp add: bnd_def)
    next
      case (Inr v)
      have "follows w' (snd (k v w'))" using assms(2) by (simp add: quiet_def)
      then show ?thesis using Pair Inr 1 by (auto simp add: bnd_def intro: follows_trans)
    qed
  qed
  then show ?thesis by (simp add: quiet_def)
qed

lemma quiet_seq: "(\<And>m. m \<in> set ms \<Longrightarrow> quiet m) \<Longrightarrow> quiet (seq ms)"
  by (induction ms) (simp_all add: seq.simps quiet_ret quiet_bnd)

lemma quiet_case_prod: "(\<And>a b. quiet (f a b)) \<Longrightarrow> quiet (case_prod f v)"
  by (cases v) simp

lemmas quiet_intros = quiet_ret quiet_raise quiet_external quiet_raise_or quiet_get_key
  quiet_bnd quiet_case_prod

lemma quiet_seq_list: "list_all quiet ms \<Longrightarrow> quiet (seq ms)"
  by (rule quiet_seq) (simp add: list_all_iff)

lemma quiet_histograms: "quiet (histograms env src gen tar)"
  unfolding histograms_def
  by (rule quiet_seq_list) (simp add: quiet_emit quiet_external)

lemma quiet_difference: "quiet (difference env gen tar)"
  unfolding difference_def
  by (rule quiet_seq_list)
    (auto intro!: quiet_bnd quiet_case_prod quiet_seq_list simp add: quiet_emit quiet_external)

lemma quiet_channels: "quiet (channels env gen tar)"
  unfolding channels_def
  by (rule quiet_seq_list) (auto intro!: quiet_bnd simp add: quiet_emit quiet_external)

lemma quiet_lab: "quiet (lab env gen tar)"
  unfolding lab_def
  by (rule quiet_seq_list) (auto intro!: quiet_bnd simp add: quiet_emit quiet_external)

lemma quiet_downloads: "quiet (downloads env f g gen)"
  unfolding downloads_def
  by (rule quiet_seq_list) (simp add: quiet_emit)

lemma quiet_comparison: "quiet (comparison env inp)"
  unfolding comparison_def
  by (auto intro!: quiet_bnd quiet_seq_list quiet_get_key quiet_raise_or quiet_ret
      quiet_external simp add: quiet_emit)

subsection \<open>The processing block\<close>

lemma accuracy_apply:
  "accuracy fig ssim_value psnr_value \<lparr>rendered = r, session = s, calls = c\<rparr> =
     (Inr (), \<lparr>rendered = r @ accuracy_widgets fig ssim_value psnr_value, session = s, calls = c\<rparr>)"
  by (simp add: accuracy_def accuracy_widgets_def seq_emit seq_Nil_apply)

lemma seq_accuracy:
  "seq (accuracy fig ssim_value psnr_value # ms) \<lparr>rendered = r, session = s, calls = c\<rparr> =
     seq ms \<lparr>rendered = r @ accuracy_widgets fig ssim_value psnr_value, session = s, calls = c\<rparr>"
  by (rule seq_step) (rule accuracy_apply)

lemma seq_last_unit: "seq [m] w = m w"
  by (cases "m w" ; cases "fst (m w)") (auto simp add: seq.simps bnd_def ret_def split: sum.splits)

lemma fires_apply:
  "fires env inp \<lparr>rendered = r, session = s, calls = c\<rparr> =
     ((if button_clicked inp then Inr True
       else case s ''processed'' of
              None \<Rightarrow> Inl (AttributeError ''processed'')
            | Some p \<Rightarrow> (case truthy env p of Inl e \<Rightarrow> Inl e | Inr t \<Rightarrow> Inr (\<not> t))),
      \<lparr>rendered = r @ [(Page, Button ''Process Images'')], session = s, calls = c\<rparr>)"
  by (simp add: fires_def bnd_def emit_def ret_def raise_def get_key_def raise_or_def
      split: option.splits sum.splits)

lemma processing_raises:
  assumes "process_images env f g = Inl x"
  shows "processing env f g \<lparr>rendered = r, session = s, calls = c\<rparr> =
     (Inl (Raised x),
      \<lparr>rendered = r @ [(Page, Spinner ''Processing images...'')], session = s,
       calls = c @ [(f, g)]\<rparr>)"
  by (simp add: processing_def seq_emit seq_last_unit bnd_def call_process_images_def
      external_def raise_def assms)

lemma processing_returns:
  assumes "process_images env f g = Inr (fig, ssim_value, psnr_value, src, gen, tar)"
  shows "processing env f g \<lparr>rendered = r, session = s, calls = c\<rparr> =
     seq [histograms env src gen tar, difference env gen tar, channels env gen tar,
          lab env gen tar, downloads env f g gen]
       \<lparr>rendered = r @ (Page, Spinner ''Processing images...'')
                     # accuracy_widgets fig ssim_value psnr_value,
        session = stored s src gen tar, calls = c @ [(f, g)]\<rparr>"
  by (simp add: processing_def seq_emit seq_last_unit bnd_def call_process_images_def
      external_def ret_def assms seq_set_key seq_accuracy stored_def)

subsection \<open>The three ways a run with both uploads goes\<close>

lemma body_both:
  assumes "src_upload inp = Some f" and "tar_upload inp = Some g"
  shows "body env inp w =
     seq [bnd (fires env inp) (\<lambda>go. if go then processing env f g else ret ()), comparison env inp] w"
  using assms by (simp add: body_def)

lemma init_state_processed:
  "init_state s ''processed'' =
     (case s ''processed'' of None \<Rightarrow> Some (PyBool False) | Some v \<Rightarrow> Some v)"
  by (simp add: init_state_def with_default_def split: option.splits)

lemma follows_run_body:
  "follows (snd (body env inp \<lparr>rendered = page_top, session = init_state s, calls = []\<rparr>))
     (snd (run env inp s))"
proof (cases "body env inp \<lparr>rendered = page_top, session = init_state s, calls = []\<rparr>")
  case (Pair a w)
  then show ?thesis
    by (cases a) (simp_all add: run_apply follows_def page_bottom_def)
qed

lemma follows_seq2:
  assumes "quiet m2"
  shows "follows (snd (m1 w)) (snd (seq [m1, m2] w))"
proof (cases "m1 w")
  case (Pair a w')
  show ?thesis
  proof (cases a)
    case (Inl e)
    then show ?thesis using Pair by (simp add: seq_Cons_apply follows_refl)
  next
    case (Inr v)
    have 1: "follows w' (snd (m2 w'))" using assms by (simp add: quiet_def)
    have "seq [m1, m2] w = seq [m2] w'" using Pair Inr by (simp add: seq.simps bnd_def)
    then show ?thesis using Pair 1 by (simp add: seq_last_unit)
  qed
qed

lemma quiet_report: "quiet (seq [histograms env src gen tar, difference env gen tar,
    channels env gen tar, lab env gen tar, downloads env f g gen])"
  by (rule quiet_seq_list)
    (simp add: quiet_histograms quiet_difference quiet_channels quiet_lab quiet_downloads)

lemma fires_decide:
  "fires env inp \<lparr>rendered = r, session = s, calls = c\<rparr> =
     (decide env inp s,
      \<lparr>rendered = r @ [(Page, Button ''Process Images'')], session = s, calls = c\<rparr>)"
  by (simp add: fires_apply decide_def)

lemma decide_go:
  assumes "button_clicked inp \<or> s ''processed'' = None \<or> s ''processed'' = Some (PyBool False)"
  shows "decide env inp (init_state s) = Inr True"
  using assms by (auto simp add: decide_def init_state_processed)

lemma decide_stay:
  assumes "\<not> button_clicked inp" and "s ''processed'' = Some (PyBool True)"
  shows "decide env inp (init_state s) = Inr False"
  using assms by (auto simp add: decide_def init_state_processed)

lemma run_decide_raises:
  assumes "src_upload inp = Some f" and "tar_upload inp = Some g"
    and "decide env inp (init_state s) = Inl e"
  shows "run env inp s =
     (Inl e, \<lparr>rendered = page_top @ [(Page, Button ''Process Images'')],
              session = init_state s, calls = []\<rparr>)"
  by (simp add: run_apply body_both [OF assms(1,2)] seq_Cons_apply bnd_apply
      fires_decide assms(3))

lemma run_raises:
  fixes env :: "('f, 'g, 'm, 'a, 'x) libraries"
  assumes "src_upload inp = Some f" and "tar_upload inp = Some g"
    and "decide env inp (init_state s) = (Inr True :: 'x exn + bool)"
    and "process_images env f g = Inl x"
  shows "run env inp s =
     (Inl (Raised x),
      \<lparr>rendered = page_top @ [(Page, Button ''Process Images''),
                               (Page, Spinner ''Processing images...'')],
       session = init_state s, calls = [(f, g)]\<rparr>)"
  by (simp add: run_apply body_both [OF assms(1,2)] seq_Cons_apply bnd_apply
      fires_decide assms(3) processing_raises [OF assms(4)])

lemma run_processes:
  fixes env :: "('f, 'g, 'm, 'a, 'x) libraries"
  assumes "src_upload inp = Some f" and "tar_upload inp = Some g"
    and "decide env inp (init_state s) = (Inr True :: 'x exn + bool)"
    and "process_images env f g = Inr (fig, ssim_value, psnr_value, src, gen, tar)"
  shows "follows
     \<lparr>rendered = page_top @ (Page, Button ''Process Images'')
         # (Page, Spinner ''Processing images...'') # accuracy_widgets fig ssim_value psnr_value,
      session = stored (init_state s) src gen tar, calls = [(f, g)]\<rparr>
     (snd (run env inp s))"
proof -
  let ?W = "\<lparr>rendered = page_top, session = init_state s, calls = []\<rparr>"
  let ?X = "bnd (fires env inp) (\<lambda>go. if go then processing env f g else ret ())"
  let ?W2 = "\<lparr>rendered = page_top @ (Page, Button ''Process Images'')
         # (Page, Spinner ''Processing images...'') # accuracy_widgets fig ssim_value psnr_value,
      session = stored (init_state s) src gen tar, calls = [(f, g)]\<rparr>"
  let ?R = "seq [histograms env src gen tar, difference env gen tar,
    channels env gen tar, lab env gen tar, downloads env f g gen]"
  have X: "?X ?W = ?R ?W2"
    by (simp add: bnd_apply fires_decide assms(3) processing_returns [OF assms(4)])
  have "follows ?W2 (snd (?R ?W2))"
    using quiet_report [of env src gen tar f g] by (simp add: quiet_def)
  then have 1: "follows ?W2 (snd (?X ?W))" by (simp add: X)
  have 2: "follows (snd (?X ?W)) (snd (body env inp ?W))"
    unfolding body_both [OF assms(1,2)] by (rule follows_seq2) (rule quiet_comparison)
  show ?thesis
    by (rule follows_trans [OF 1 follows_trans [OF 2 follows_run_body]])
qed

lemma run_idles:
  fixes env :: "('f, 'g, 'm, 'a, 'x) libraries"
  assumes "src_upload inp = Some f" and "tar_upload inp = Some g"
    and "decide env inp (init_state s) = (Inr False :: 'x exn + bool)"
  shows "follows
     \<lparr>rendered = page_top @ [(Page, Button ''Process Images'')],
      session = init_state s, calls = []\<rparr>
     (snd (run env inp s))"
proof -
  let ?W = "\<lparr>rendered = page_top, session = init_state s, calls = []\<rparr>"
  let ?X = "bnd (fires env inp) (\<lambda>go. if go then processing env f g else ret ())"
  have X: "?X ?W = (Inr (), \<lparr>rendered = page_top @ [(Page, Button ''Process Images'')],
      session = init_state s, calls = []\<rparr>)"
    by (simp add: bnd_apply fires_decide assms(3) ret_def)
  have 2: "follows (snd (?X ?W)) (snd (body env inp ?W))"
    unfolding body_both [OF assms(1,2)] by (rule follows_seq2) (rule quiet_comparison)
  show ?thesis
    using follows_trans [OF 2 follows_run_body] by (simp add: X)
qed

text \<open>What every run leaves behind.\<close>

lemma run_shape:
  fixes env :: "('f, 'g, 'm, 'a, 'x) libraries"
  shows "(\<exists>ws. rendered (snd (run env inp s)) = page_top @ ws \<and> (\<forall>x \<in> set ws. \<not> is_uploader (snd x))) \<and>
   (session (snd (run env inp s)) = init_state s \<or>
    (\<exists>a b c. session (snd (run env inp s)) = stored (init_state s) a b c))"
proof (cases "src_upload inp = None \<or> tar_upload inp = None")
  case True
  show ?thesis
    by (simp add: no_upload_run [OF True] page_bottom_def)
next
  case False
  then obtain f g where fg: "src_upload inp = Some f" "tar_upload inp = Some g" by auto
  show ?thesis
  proof (cases "decide env inp (init_state s) :: 'x exn + bool")
    case (Inl e)
    show ?thesis by (simp add: run_decide_raises [OF fg Inl])
  next
    case (Inr go)
    show ?thesis
    proof (cases go)
      case False
      with Inr have "decide env inp (init_state s) = (Inr False :: 'x exn + bool)" by simp
      from run_idles [OF fg this] show ?thesis
        by (auto simp add: follows_def)
    next
      case True
      with Inr have go: "decide env inp (init_state s) = (Inr True :: 'x exn + bool)" by simp
      show ?thesis
      proof (cases "process_images env f g")
        case (Inl x)
        show ?thesis by (simp add: run_raises [OF fg go Inl])
      next
        case (Inr p)
        obtain fig sv pv src gen tar where "p = (fig, sv, pv, src, gen, tar)"
          by (cases p rule: prod_cases6)
        with Inr have "process_images env f g = Inr (fig, sv, pv, src, gen, tar)" by simp
        from run_processes [OF fg go this] show ?thesis
          by (auto simp add: follows_def accuracy_widgets_def)
      qed
    qed
  qed
qed

subsection \<open>Facts about session states\<close>

lemma with_default_apply:
  "with_default k v s k' = (if k' = k \<and> s k = None then Some v else s k')"
  by (simp add: with_default_def)

lemma init_state_apply:
  "init_state s k =
     (case s k of
        Some v \<Rightarrow> Some v
      | None \<Rightarrow> if k = ''processed'' then Some (PyBool False)
                else if k = ''src'' \<or> k = ''gen'' \<or> k = ''tar'' then Some PyNone else None)"
  by (simp add: init_state_def with_default_apply split: option.splits)

lemma init_state_fresh: "init_state Map.empty = fresh_state"
  by (rule ext) (simp add: init_state_apply fresh_state_def)

lemma init_state_same:
  assumes "s ''processed'' \<noteq> None" "s ''src'' \<noteq> None" "s ''gen'' \<noteq> None" "s ''tar'' \<noteq> None"
  shows "init_state s = s"
proof (rule ext)
  fix k
  show "init_state s k = s k"
    using assms by (cases "s k") (auto simp add: init_state_apply)
qed

lemma stored_apply:
  "stored s src gen tar k =
     (if k = ''tar'' then Some (PyArr tar) else if k = ''gen'' then Some (PyArr gen)
      else if k = ''src'' then Some (PyArr src) else if k = ''processed'' then Some (PyBool True)
      else s k)"
  by (simp add: stored_def)

lemma calls_when_fired:
  fixes env :: "('f, 'g, 'm, 'a, 'x) libraries"
  assumes "src_upload inp = Some f" and "tar_upload inp = Some g"
    and "decide env inp (init_state s) = (Inr True :: 'x exn + bool)"
  shows "calls (snd (run env inp s)) = [(f, g)]"
proof (cases "process_images env f g")
  case (Inl x)
  show ?thesis by (simp add: run_raises [OF assms Inl])
next
  case (Inr p)
  obtain fig sv pv src gen tar where "p = (fig, sv, pv, src, gen, tar)"
    by (cases p rule: prod_cases6)
  with Inr have "process_images env f g = Inr (fig, sv, pv, src, gen, tar)" by simp
  from run_processes [OF assms this] show ?thesis
    by (simp add: follows_def)
qed

subsection \<open>When processing fires\<close>

text \<open>
  C4. With both images uploaded, processing is not tied to the button. While the flag
  \<open>processed\<close> is unset or \<open>False\<close>, \<open>process_images\<close> is called (once, with the two
  uploads) whether or not the button was clicked. Once the flag is \<open>True\<close>, it is called
  exactly when the button was clicked.
\<close>

theorem processing_fires_without_click_until_processed:
  fixes env :: "('f, 'g, 'm, 'a, 'x) libraries"
  assumes "src_upload inp = Some f" and "tar_upload inp = Some g"
  shows "(s ''processed'' = None \<or> s ''processed'' = Some (PyBool False)
            \<longrightarrow> calls (snd (run env inp s)) = [(f, g)]) \<and>
         (s ''processed'' = Some (PyBool True)
            \<longrightarrow> calls (snd (run env inp s)) = (if button_clicked inp then [(f, g)] else []))"
proof (intro conjI impI)
  assume "s ''processed'' = None \<or> s ''processed'' = Some (PyBool False)"
  then have "decide env inp (init_state s) = (Inr True :: 'x exn + bool)"
    by (intro decide_go) simp
  then show "calls (snd (run env inp s)) = [(f, g)]"
    by (rule calls_when_fired [OF assms])
next
  assume p: "s ''processed'' = Some (PyBool True)"
  show "calls (snd (run env inp s)) = (if button_clicked inp then [(f, g)] else [])"
  proof (cases "button_clicked inp")
    case True
    then have "decide env inp (init_state s) = (Inr True :: 'x exn + bool)"
      by (intro decide_go) simp
    then show ?thesis using True by (simp add: calls_when_fired [OF assms])
  next
    case False
    have "decide env inp (init_state s) = (Inr False :: 'x exn + bool)"
      using False p by (rule decide_stay)
    from run_idles [OF assms this] show ?thesis
      using False by (simp add: follows_def)
  qed
qed

theorem processing_fires_without_click_until_processed_witness:
  "src_upload both_uploaded = Some 1 \<and> tar_upload both_uploaded = Some 2 \<and>
   \<not> button_clicked both_uploaded \<and>
   fresh_state ''processed'' = Some (PyBool False) \<and>
   calls (snd (run demo_env both_uploaded fresh_state)) = [(1, 2)] \<and>
   processed_state ''processed'' = Some (PyBool True) \<and>
   calls (snd (run demo_env both_uploaded processed_state)) = []"
proof -
  have 1: "src_upload both_uploaded = Some 1" and 2: "tar_upload both_uploaded = Some 2"
    and 3: "\<not> button_clicked both_uploaded"
    by (simp_all add: both_uploaded_def)
  have 4: "fresh_state ''processed'' = Some (PyBool False)"
    by (simp add: fresh_state_def)
  have 5: "processed_state ''processed'' = Some (PyBool True)"
    by (simp add: processed_state_def)
  note fresh = processing_fires_without_click_until_processed
    [where inp = both_uploaded and s = fresh_state and env = demo_env, OF 1 2]
  note again = processing_fires_without_click_until_processed
    [where inp = both_uploaded and s = processed_state and env = demo_env, OF 1 2]
  have a: "calls (snd (run demo_env both_uploaded fresh_state)) = [(1, 2)]"
    using fresh [THEN conjunct1] 4 by simp
  have b: "calls (snd (run demo_env both_uploaded processed_state)) = []"
    using again [THEN conjunct2] 5 3 by simp
  from 1 2 3 4 a 5 b show ?thesis by (intro conjI)
qed

subsection \<open>An exception out of the processing call\<close>

text \<open>
  C3. When the call \<open>process_images(src_image, tar_image)\<close> raises, the run ends with
  that very exception: nothing catches it. The session state is then the one the
  initialisation of lines 12-19 left: every key that was set keeps its value, and when
  the four keys were all set the state is unchanged. None of the assignments of lines
  52-55 has taken effect.
\<close>

theorem exception_propagates_and_state_is_kept:
  fixes env :: "('f, 'g, 'm, 'a, 'x) libraries"
  assumes "src_upload inp = Some f" and "tar_upload inp = Some g"
    and "button_clicked inp \<or> s ''processed'' = None \<or> s ''processed'' = Some (PyBool False)"
    and "process_images env f g = Inl x"
  shows "fst (run env inp s) = Inl (Raised x) \<and>
         session (snd (run env inp s)) = init_state s \<and>
         (\<forall>k v. s k = Some v \<longrightarrow> session (snd (run env inp s)) k = Some v) \<and>
         (s ''processed'' \<noteq> None \<and> s ''src'' \<noteq> None \<and> s ''gen'' \<noteq> None \<and> s ''tar'' \<noteq> None
            \<longrightarrow> session (snd (run env inp s)) = s)"
proof -
  have "decide env inp (init_state s) = (Inr True :: 'x exn + bool)"
    using assms(3) by (rule decide_go)
  from run_raises [OF assms(1,2) this assms(4)] show ?thesis
    by (auto simp add: init_state_apply init_state_same)
qed

theorem exception_propagates_and_state_is_kept_witness:
  "src_upload source_unreadable = Some 0 \<and> tar_upload source_unreadable = Some 2 \<and>
   fresh_state ''processed'' = Some (PyBool False) \<and>
   process_images demo_env 0 2 = Inl 7 \<and>
   fst (run demo_env source_unreadable fresh_state) = Inl (Raised 7) \<and>
   session (snd (run demo_env source_unreadable fresh_state)) = fresh_state"
proof -
  have 1: "src_upload source_unreadable = Some 0" and 2: "tar_upload source_unreadable = Some 2"
    by (simp_all add: source_unreadable_def)
  have p: "fresh_state ''processed'' = Some (PyBool False)"
    by (simp add: fresh_state_def)
  then have 3: "button_clicked source_unreadable \<or> fresh_state ''processed'' = None \<or>
      fresh_state ''processed'' = Some (PyBool False)"
    by simp
  have 4: "process_images demo_env 0 2 = Inl 7"
    by (simp add: demo_env_def)
  have 5: "fresh_state ''processed'' \<noteq> None \<and> fresh_state ''src'' \<noteq> None \<and>
      fresh_state ''gen'' \<noteq> None \<and> fresh_state ''tar'' \<noteq> None"
    by (simp add: fresh_state_def)
  note kept = exception_propagates_and_state_is_kept
    [where inp = source_unreadable and s = fresh_state and env = demo_env, OF 1 2 3 4]
  from kept have a: "fst (run demo_env source_unreadable fresh_state) = Inl (Raised 7)"
    by (rule conjunct1)
  have b: "session (snd (run demo_env source_unreadable fresh_state)) = fresh_state"
    by (rule kept [THEN conjunct2, THEN conjunct2, THEN conjunct2, THEN mp, OF 5])
  from 1 2 p 4 a b show ?thesis by (intro conjI)
qed

subsection \<open>The call and what becomes of its result\<close>

text \<open>
  C1. In a run where both uploads are present and processing fires (the button was
  clicked, or the flag is unset or \<open>False\<close>), \<open>process_images\<close> is called once, with
  the source upload first and the target upload second. When it returns
  \<open>(fig, ssim, psnr, src, gen, tar)\<close>, the six components are bound in that order: the
  first is the figure shown, the second and third are the SSIM and PSNR metrics, and the
  last three are stored under the session keys \<open>src\<close>, \<open>gen\<close> and \<open>tar\<close>.
\<close>

theorem process_images_call_and_binding:
  fixes env :: "('f, 'g, 'm, 'a, 'x) libraries"
  assumes "src_upload inp = Some f" and "tar_upload inp = Some g"
    and "button_clicked inp \<or> s ''processed'' = None \<or> s ''processed'' = Some (PyBool False)"
    and "process_images env f g = Inr (fig, ssim_value, psnr_value, src, gen, tar)"
  shows "calls (snd (run env inp s)) = [(f, g)] \<and>
         session (snd (run env inp s)) =
           (init_state s)(''processed'' \<mapsto> PyBool True, ''src'' \<mapsto> PyArr src,
              ''gen'' \<mapsto> PyArr gen, ''tar'' \<mapsto> PyArr tar) \<and>
         (\<exists>ws. rendered (snd (run env inp s)) =
            page_top @
            [(Page, Button ''Process Images''),
             (Page, Spinner ''Processing images...''),
             (Page, Pyplot (Made fig)),
             (Page, Subheader ''Accuracy Metrics''),
             (Page, Columns 2),
             (Column 1, Metric ''SSIM'' (Fixed 4 ssim_value [])),
             (Column 1, Info (Prose Ssim_note)),
             (Column 2, Metric ''PSNR'' (Fixed 2 psnr_value '' dB'')),
             (Column 2, Info (Prose Psnr_note))] @ ws)"
proof -
  have "decide env inp (init_state s) = (Inr True :: 'x exn + bool)"
    using assms(3) by (rule decide_go)
  from run_processes [OF assms(1,2) this assms(4)] show ?thesis
    by (auto simp add: follows_def accuracy_widgets_def stored_def)
qed

theorem process_images_call_and_binding_witness:
  "src_upload both_uploaded = Some 1 \<and> tar_upload both_uploaded = Some 2 \<and>
   fresh_state ''processed'' = Some (PyBool False) \<and>
   process_images demo_env 1 2 = Inr (3, 1, 2, [- 1, 0, 1], [1, 0, - 1], [0, 0, 0]) \<and>
   calls (snd (run demo_env both_uploaded fresh_state)) = [(1, 2)] \<and>
   session (snd (run demo_env both_uploaded fresh_state)) = processed_state"
proof -
  have 1: "src_upload both_uploaded = Some 1" and 2: "tar_upload both_uploaded = Some 2"
    by (simp_all add: both_uploaded_def)
  have p: "fresh_state ''processed'' = Some (PyBool False)"
    by (simp add: fresh_state_def)
  then have 3: "button_clicked both_uploaded \<or> fresh_state ''processed'' = None \<or>
      fresh_state ''processed'' = Some (PyBool False)"
    by simp
  have 4: "process_images demo_env 1 2 = Inr (3, 1, 2, [- 1, 0, 1], [1, 0, - 1], [0, 0, 0])"
    by (simp add: demo_env_def)
  note bound = process_images_call_and_binding
    [where inp = both_uploaded and s = fresh_state and env = demo_env, OF 1 2 3 4]
  have a: "calls (snd (run demo_env both_uploaded fresh_state)) = [(1, 2)]"
    by (rule bound [THEN conjunct1])
  have i: "init_state fresh_state = fresh_state"
    by (rule init_state_same) (simp_all add: fresh_state_def)
  have b: "session (snd (run demo_env both_uploaded fresh_state)) = processed_state"
    unfolding bound [THEN conjunct2, THEN conjunct1] i
    by (simp add: fresh_state_def processed_state_def)
  from 1 2 p 4 a b show ?thesis by (intro conjI)
qed

subsection \<open>The upload widgets\<close>

text \<open>
  C6. Every run renders exactly two file uploaders, whatever the inputs, the session state
  and the outcome: the first for the source (grayscale) image, the second for the target
  (color) image, each with the accepted types \<open>png\<close>, \<open>jpg\<close> and \<open>jpeg\<close>.
\<close>

theorem two_uploaders_for_png_jpg_jpeg:
  fixes env :: "('f, 'g, 'm, 'a, 'x) libraries"
  shows "filter (\<lambda>x. is_uploader (snd x)) (rendered (snd (run env inp s))) =
     [(Column 1, File_uploader ''Upload Source (Grayscale) Image'' [''png'', ''jpg'', ''jpeg'']),
      (Column 2, File_uploader ''Upload Target (Color) Image'' [''png'', ''jpg'', ''jpeg''])]"
proof -
  from run_shape [of env inp s] obtain ws where
    ws: "rendered (snd (run env inp s)) = page_top @ ws" "\<forall>x \<in> set ws. \<not> is_uploader (snd x)"
    by blast
  from ws(2) have "filter (\<lambda>x. is_uploader (snd x)) ws = []"
    by (simp add: filter_empty_conv)
  then show ?thesis
    by (simp add: ws(1) page_top_def)
qed

subsection \<open>The session state\<close>

lemma init_state_keeps_ready: "buffers_ready s \<Longrightarrow> buffers_ready (init_state s)"
  by (auto simp add: buffers_ready_def holds_value_def init_state_apply
      split: option.splits if_splits)

lemma stored_ready: "buffers_ready (stored s a b c)"
  by (simp add: buffers_ready_def holds_value_def stored_apply)

lemma init_state_dom:
  "(init_state s k \<noteq> None) = (s k \<noteq> None \<or> k = ''processed'' \<or> k = ''src'' \<or> k = ''gen'' \<or> k = ''tar'')"
  by (cases "s k") (simp_all add: init_state_apply)

lemma stored_dom:
  "(stored s a b c k \<noteq> None) = (s k \<noteq> None \<or> k = ''processed'' \<or> k = ''src'' \<or> k = ''gen'' \<or> k = ''tar'')"
  by (simp add: stored_apply)

text \<open>
  C2. The script keeps four session keys: the flag \<open>processed\<close> and the buffers
  \<open>src\<close>, \<open>gen\<close>, \<open>tar\<close>.
  \<^item> A first render (empty session state, not both images uploaded yet) leaves exactly
    \<open>processed = False\<close> and the three buffers \<open>None\<close>.
  \<^item> Whatever the run, every other key keeps what it held, and the keys set afterwards
    are those set before together with the four.
  \<^item> Every run preserves the invariant that when \<open>processed\<close> is \<open>True\<close> the three
    buffers are set and not \<open>None\<close>.
\<close>

theorem session_state_is_flag_and_three_buffers:
  fixes env :: "('f, 'g, 'm, 'a, 'x) libraries"
  shows "(src_upload inp = None \<or> tar_upload inp = None \<longrightarrow>
            session (snd (run env inp Map.empty)) =
              [''processed'' \<mapsto> PyBool False, ''src'' \<mapsto> PyNone, ''gen'' \<mapsto> PyNone,
               ''tar'' \<mapsto> PyNone]) \<and>
         (\<forall>k. k \<noteq> ''processed'' \<and> k \<noteq> ''src'' \<and> k \<noteq> ''gen'' \<and> k \<noteq> ''tar''
            \<longrightarrow> session (snd (run env inp s)) k = s k) \<and>
         dom (session (snd (run env inp s))) = dom s \<union> {''processed'', ''src'', ''gen'', ''tar''} \<and>
         (buffers_ready s \<longrightarrow> buffers_ready (session (snd (run env inp s))))"
proof (intro conjI impI allI)
  assume "src_upload inp = None \<or> tar_upload inp = None"
  then show "session (snd (run env inp Map.empty)) =
      [''processed'' \<mapsto> PyBool False, ''src'' \<mapsto> PyNone, ''gen'' \<mapsto> PyNone, ''tar'' \<mapsto> PyNone]"
    by (simp add: no_upload_run fun_eq_iff init_state_apply)
next
  fix k :: string
  assume k: "k \<noteq> ''processed'' \<and> k \<noteq> ''src'' \<and> k \<noteq> ''gen'' \<and> k \<noteq> ''tar''"
  have i: "init_state s k = s k"
    using k by (cases "s k") (simp_all add: init_state_apply)
  from run_shape [of env inp s] have
    "session (snd (run env inp s)) = init_state s \<or>
     (\<exists>a b c. session (snd (run env inp s)) = stored (init_state s) a b c)"
    by (rule conjunct2)
  then show "session (snd (run env inp s)) k = s k"
    using k i by (auto simp add: stored_apply)
next
  from run_shape [of env inp s] have
    "session (snd (run env inp s)) = init_state s \<or>
     (\<exists>a b c. session (snd (run env inp s)) = stored (init_state s) a b c)"
    by (rule conjunct2)
  then have "(session (snd (run env inp s)) k \<noteq> None) =
      (s k \<noteq> None \<or> k = ''processed'' \<or> k = ''src'' \<or> k = ''gen'' \<or> k = ''tar'')" for k
    using init_state_dom [of s k] stored_dom [of "init_state s" _ _ _ k] by metis
  then show "dom (session (snd (run env inp s))) = dom s \<union> {''processed'', ''src'', ''gen'', ''tar''}"
    unfolding dom_def by blast
next
  assume r: "buffers_ready s"
  from run_shape [of env inp s] have
    "session (snd (run env inp s)) = init_state s \<or>
     (\<exists>a b c. session (snd (run env inp s)) = stored (init_state s) a b c)"
    by (rule conjunct2)
  then show "buffers_ready (session (snd (run env inp s)))"
    using init_state_keeps_ready [OF r] stored_ready by metis
qed

theorem session_state_is_flag_and_three_buffers_witness:
  "(src_upload target_missing = None \<or> tar_upload target_missing = None) \<and>
   session (snd (run demo_env target_missing Map.empty)) = fresh_state \<and>
   session (snd (run demo_env both_uploaded processed_state)) ''theme'' = processed_state ''theme'' \<and>
   buffers_ready processed_state \<and>
   buffers_ready (session (snd (run demo_env both_uploaded processed_state)))"
proof -
  have 1: "src_upload target_missing = None \<or> tar_upload target_missing = None"
    by (simp add: target_missing_def)
  have 2: "''theme'' \<noteq> ''processed'' \<and> ''theme'' \<noteq> ''src'' \<and> ''theme'' \<noteq> ''gen'' \<and>
      ''theme'' \<noteq> ''tar''"
    by simp
  have 3: "buffers_ready processed_state"
    by (simp add: buffers_ready_def holds_value_def processed_state_def)
  note first = session_state_is_flag_and_three_buffers
    [where inp = target_missing and env = demo_env and s = Map.empty]
  note later = session_state_is_flag_and_three_buffers
    [where inp = both_uploaded and env = demo_env and s = processed_state]
  have a: "session (snd (run demo_env target_missing Map.empty)) = fresh_state"
    unfolding fresh_state_def by (rule first [THEN conjunct1, THEN mp, OF 1])
  have b: "session (snd (run demo_env both_uploaded processed_state)) ''theme'' =
      processed_state ''theme''"
    by (rule later [THEN conjunct2, THEN conjunct1, THEN spec, THEN mp, OF 2])
  have c: "buffers_ready (session (snd (run demo_env both_uploaded processed_state)))"
    by (rule later [THEN conjunct2, THEN conjunct2, THEN conjunct2, THEN mp, OF 3])
  from 1 a b 3 c show ?thesis by (intro conjI)
qed

subsection \<open>The analysis and download sections\<close>

lemma seq_external:
  "r = Inr () \<Longrightarrow> seq (external r # ms) w = seq ms w"
  by (simp add: seq.simps bnd_def external_def ret_def)

lemma seq_bnd_external:
  "r = Inr v \<Longrightarrow> seq (bnd (external r) k # ms) w = seq (k v # ms) w"
  by (simp add: seq.simps bnd_def external_def ret_def)

lemma seq_seq: "seq (seq xs # ms) w = seq (xs @ ms) w"
proof (induction xs arbitrary: w)
  case Nil
  show ?case by (simp add: seq.simps bnd_def ret_def)
next
  case (Cons x xs)
  show ?case
    using Cons.IH by (cases "x w") (auto simp add: seq.simps bnd_def split: sum.splits)
qed

lemma histograms_apply:
  assumes "plot_histogram env (rescale env src) 1 ''Source'' = Inr ()"
    and "plot_histogram env (rescale env gen) 2 ''Generated'' = Inr ()"
    and "plot_histogram env (rescale env tar) 3 ''Target'' = Inr ()"
  shows "seq (histograms env src gen tar # ms) \<lparr>rendered = r, session = s, calls = c\<rparr> =
     seq ms \<lparr>rendered = r @
        [(Page, Subheader ''Color Histograms''),
         (Page, Write (Prose Histograms_text)),
         (Page, Pyplot (Subplots 1 3 (15, 5)
            [(1, Plot_histogram (rescale env src) ''Source''),
             (2, Plot_histogram (rescale env gen) ''Generated''),
             (3, Plot_histogram (rescale env tar) ''Target'')]))],
       session = s, calls = c\<rparr>"
  unfolding histograms_def seq_seq
  by (simp add: seq_emit seq_external assms del: One_nat_def)

lemma difference_apply:
  assumes "plot_difference_map env (rescale env tar) (rescale env gen) = Inr (diff_fig, mean_diff)"
  shows "seq (difference env gen tar # ms) \<lparr>rendered = r, session = s, calls = c\<rparr> =
     seq ms \<lparr>rendered = r @
        [(Page, Subheader ''Difference Map''),
         (Page, Columns_weighted [1, 2]),
         (Column 1, Pyplot (Made diff_fig)),
         (Column 2, Write (Prose Difference_text)),
         (Column 2, Metric ''Mean Difference'' (Fixed 4 mean_diff [])),
         (Column 2, Info (Prose Mean_difference_note))],
       session = s, calls = c\<rparr>"
  unfolding difference_def seq_seq
  by (simp add: seq_emit seq_bnd_external [OF assms] seq_seq)

lemma seq_bnd_external_emit:
  "r = Inr v \<Longrightarrow>
   seq (bnd (external r) (\<lambda>fig. emit p (x fig)) # ms) \<lparr>rendered = rs, session = s, calls = c\<rparr> =
     seq ms \<lparr>rendered = rs @ [(p, x v)], session = s, calls = c\<rparr>"
  by (simp add: seq_bnd_external seq_emit)

lemma channels_apply:
  assumes "plot_color_channels env (rescale env gen) ''Generated Image Color Channels'' = Inr chan_gen"
    and "plot_color_channels env (rescale env tar) ''Target Image Color Channels'' = Inr chan_tar"
  shows "seq (channels env gen tar # ms) \<lparr>rendered = r, session = s, calls = c\<rparr> =
     seq ms \<lparr>rendered = r @
        [(Page, Subheader ''Color Channels''),
         (Page, Write (Prose Channels_text)),
         (Page, Pyplot (Made chan_gen)),
         (Page, Pyplot (Made chan_tar))],
       session = s, calls = c\<rparr>"
  unfolding channels_def seq_seq
  by (simp add: seq_emit seq_bnd_external_emit [OF assms(1)] seq_bnd_external_emit [OF assms(2)])

lemma lab_apply:
  assumes "plot_lab_channels env (rescale env gen) ''Generated Image in LAB Color Space'' = Inr lab_gen"
    and "plot_lab_channels env (rescale env tar) ''Target Image in LAB Color Space'' = Inr lab_tar"
  shows "seq (lab env gen tar # ms) \<lparr>rendered = r, session = s, calls = c\<rparr> =
     seq ms \<lparr>rendered = r @
        [(Page, Subheader ''LAB Color Space''),
         (Page, Write (Prose Lab_text)),
         (Page, Pyplot (Made lab_gen)),
         (Page, Pyplot (Made lab_tar))],
       session = s, calls = c\<rparr>"
  unfolding lab_def seq_seq
  by (simp add: seq_emit seq_bnd_external_emit [OF assms(1)] seq_bnd_external_emit [OF assms(2)])

lemma downloads_apply:
  "seq (downloads env f g gen # ms) \<lparr>rendered = r, session = s, calls = c\<rparr> =
     seq ms \<lparr>rendered = r @ download_widgets env f g gen, session = s, calls = c\<rparr>"
  unfolding downloads_def seq_seq
  by (simp add: seq_emit download_widgets_def)

lemma report_apply:
  assumes "plot_histogram env (rescale env src) 1 ''Source'' = Inr ()"
    and "plot_histogram env (rescale env gen) 2 ''Generated'' = Inr ()"
    and "plot_histogram env (rescale env tar) 3 ''Target'' = Inr ()"
    and "plot_difference_map env (rescale env tar) (rescale env gen) = Inr (diff_fig, mean_diff)"
    and "plot_color_channels env (rescale env gen) ''Generated Image Color Channels'' = Inr chan_gen"
    and "plot_color_channels env (rescale env tar) ''Target Image Color Channels'' = Inr chan_tar"
    and "plot_lab_channels env (rescale env gen) ''Generated Image in LAB Color Space'' = Inr lab_gen"
    and "plot_lab_channels env (rescale env tar) ''Target Image in LAB Color Space'' = Inr lab_tar"
  shows "seq [histograms env src gen tar, difference env gen tar, channels env gen tar,
              lab env gen tar, downloads env f g gen] \<lparr>rendered = r, session = s, calls = c\<rparr> =
     (Inr (), \<lparr>rendered = r @
        analysis_widgets env src gen tar diff_fig mean_diff chan_gen chan_tar lab_gen lab_tar @
        download_widgets env f g gen, session = s, calls = c\<rparr>)"
  by (simp add: histograms_apply [OF assms(1,2,3)] difference_apply [OF assms(4)]
      channels_apply [OF assms(5,6)] lab_apply [OF assms(7,8)] downloads_apply seq_Nil_apply
      analysis_widgets_def del: One_nat_def)

subsection \<open>The slider block\<close>

lemma emit_apply:
  "emit p x \<lparr>rendered = r, session = s, calls = c\<rparr> =
     (Inr (), \<lparr>rendered = r @ [(p, x)], session = s, calls = c\<rparr>)"
  by (simp add: emit_def)

lemma comparison_apply:
  assumes "s ''processed'' = Some (PyBool True)"
    and "s ''src'' = Some (PyArr a)" and "s ''gen'' = Some (PyArr b)"
  shows "comparison env inp \<lparr>rendered = r, session = s, calls = c\<rparr> =
     (case blend env a b (slider_value inp) of
        Inl x \<Rightarrow>
          (Inl (Raised x), \<lparr>rendered = r @ slider_widgets, session = s, calls = c\<rparr>)
      | Inr img \<Rightarrow>
          (case imshow env img of
             Inl x \<Rightarrow>
               (Inl (Raised x), \<lparr>rendered = r @ slider_widgets, session = s, calls = c\<rparr>)
           | Inr u \<Rightarrow>
               (Inr (), \<lparr>rendered = r @ comparison_widgets (slider_value inp) img,
                          session = s, calls = c\<rparr>)))"
  unfolding comparison_def
  by (simp add: bnd_apply get_key_def raise_or_def external_def ret_def raise_def assms seq_emit
      emit_apply seq_last_unit seq_Nil_apply comparison_widgets_def slider_widgets_def
      del: One_nat_def split: sum.splits)


text \<open>
  A run in which processing fires and every call into the collaborator returns: all of it,
  whether or not the slider block that follows raises.
\<close>

lemma run_reported:
  fixes env :: "('f, 'g, 'm, 'a, 'x) libraries"
  assumes "src_upload inp = Some f" and "tar_upload inp = Some g"
    and "decide env inp (init_state s) = Inr True"
    and "process_images env f g = Inr (fig, ssim_value, psnr_value, src, gen, tar)"
    and "plot_histogram env (rescale env src) 1 ''Source'' = Inr ()"
    and "plot_histogram env (rescale env gen) 2 ''Generated'' = Inr ()"
    and "plot_histogram env (rescale env tar) 3 ''Target'' = Inr ()"
    and "plot_difference_map env (rescale env tar) (rescale env gen) = Inr (diff_fig, mean_diff)"
    and "plot_color_channels env (rescale env gen) ''Generated Image Color Channels'' = Inr chan_gen"
    and "plot_color_channels env (rescale env tar) ''Target Image Color Channels'' = Inr chan_tar"
    and "plot_lab_channels env (rescale env gen) ''Generated Image in LAB Color Space'' = Inr lab_gen"
    and "plot_lab_channels env (rescale env tar) ''Target Image in LAB Color Space'' = Inr lab_tar"
  shows "run env inp s =
     (case blend env src gen (slider_value inp) of
        Inl x \<Rightarrow>
          (Inl (Raised x),
           \<lparr>rendered = page_top @ (Page, Button ''Process Images'')
              # (Page, Spinner ''Processing images...'')
              # accuracy_widgets fig ssim_value psnr_value
              @ analysis_widgets env src gen tar diff_fig mean_diff chan_gen chan_tar lab_gen lab_tar
              @ download_widgets env f g gen
              @ slider_widgets,
            session = stored (init_state s) src gen tar, calls = [(f, g)]\<rparr>)
      | Inr img \<Rightarrow>
          (case imshow env img of
             Inl x \<Rightarrow>
               (Inl (Raised x),
                \<lparr>rendered = page_top @ (Page, Button ''Process Images'')
              # (Page, Spinner ''Processing images...'')
              # accuracy_widgets fig ssim_value psnr_value
              @ analysis_widgets env src gen tar diff_fig mean_diff chan_gen chan_tar lab_gen lab_tar
              @ download_widgets env f g gen
                   @ slider_widgets,
                 session = stored (init_state s) src gen tar, calls = [(f, g)]\<rparr>)
           | Inr u \<Rightarrow>
               (Inr (),
                \<lparr>rendered = page_top @ (Page, Button ''Process Images'')
              # (Page, Spinner ''Processing images...'')
              # accuracy_widgets fig ssim_value psnr_value
              @ analysis_widgets env src gen tar diff_fig mean_diff chan_gen chan_tar lab_gen lab_tar
              @ download_widgets env f g gen
                   @ comparison_widgets (slider_value inp) img
                   @ page_bottom,
                 session = stored (init_state s) src gen tar, calls = [(f, g)]\<rparr>)))"
proof -
  let ?W = "\<lparr>rendered = page_top, session = init_state s, calls = []\<rparr>"
  let ?X = "bnd (fires env inp) (\<lambda>go. if go then processing env f g else ret ())"
  let ?r3 = "page_top @ (Page, Button ''Process Images'')
              # (Page, Spinner ''Processing images...'')
              # accuracy_widgets fig ssim_value psnr_value
              @ analysis_widgets env src gen tar diff_fig mean_diff chan_gen chan_tar lab_gen lab_tar
              @ download_widgets env f g gen"
  let ?W3 = "\<lparr>rendered = ?r3, session = stored (init_state s) src gen tar, calls = [(f, g)]\<rparr>"
  have X: "?X ?W = (Inr (), ?W3)"
    by (simp add: bnd_apply fires_decide assms(3) processing_returns [OF assms(4)]
        report_apply [OF assms(5-12)])
  have C: "comparison env inp ?W3 =
     (case blend env src gen (slider_value inp) of
        Inl x \<Rightarrow>
          (Inl (Raised x), \<lparr>rendered = ?r3 @ slider_widgets,
             session = stored (init_state s) src gen tar, calls = [(f, g)]\<rparr>)
      | Inr img \<Rightarrow>
          (case imshow env img of
             Inl x \<Rightarrow>
               (Inl (Raised x), \<lparr>rendered = ?r3 @ slider_widgets,
                  session = stored (init_state s) src gen tar, calls = [(f, g)]\<rparr>)
           | Inr u \<Rightarrow>
               (Inr (), \<lparr>rendered = ?r3 @ comparison_widgets (slider_value inp) img,
                  session = stored (init_state s) src gen tar, calls = [(f, g)]\<rparr>)))"
    by (rule comparison_apply) (simp_all add: stored_apply)
  have B: "body env inp ?W = comparison env inp ?W3"
    unfolding body_both [OF assms(1,2)]
    by (simp add: seq_step [where m = "?X" and w = "?W", OF X] seq_last_unit)
  show ?thesis
    unfolding run_apply B C
    by (simp split: sum.splits)
qed


subsection \<open>What a processing run renders\<close>

text \<open>
  C7. In a run where processing fires and every call into the collaborator returns, the
  page shows after the spinner, in this order: the comparison figure of the model; the
  SSIM and PSNR metrics; the colour histograms of source, generated and target image (one
  figure of three axes); the difference map with the mean-difference metric; the colour
  channels of the generated and of the target image; the LAB decomposition of the
  generated and of the target image. The list below is all that is rendered from the
  button to the end of the LAB section; the download section and the slider follow.
\<close>

theorem results_rendered_in_order:
  fixes env :: "('f, 'g, 'm, 'a, 'x) libraries"
  assumes "src_upload inp = Some f" and "tar_upload inp = Some g"
    and "button_clicked inp \<or> s ''processed'' = None \<or> s ''processed'' = Some (PyBool False)"
    and "process_images env f g = Inr (fig, ssim_value, psnr_value, src, gen, tar)"
    and "plot_histogram env (rescale env src) 1 ''Source'' = Inr ()"
    and "plot_histogram env (rescale env gen) 2 ''Generated'' = Inr ()"
    and "plot_histogram env (rescale env tar) 3 ''Target'' = Inr ()"
    and "plot_difference_map env (rescale env tar) (rescale env gen) = Inr (diff_fig, mean_diff)"
    and "plot_color_channels env (rescale env gen) ''Generated Image Color Channels'' = Inr chan_gen"
    and "plot_color_channels env (rescale env tar) ''Target Image Color Channels'' = Inr chan_tar"
    and "plot_lab_channels env (rescale env gen) ''Generated Image in LAB Color Space'' = Inr lab_gen"
    and "plot_lab_channels env (rescale env tar) ''Target Image in LAB Color Space'' = Inr lab_tar"
  shows "\<exists>ws. rendered (snd (run env inp s)) =
       page_top @
       [(Page, Button ''Process Images''),
        (Page, Spinner ''Processing images...''),
        (Page, Pyplot (Made fig)),
        (Page, Subheader ''Accuracy Metrics''),
        (Page, Columns 2),
        (Column 1, Metric ''SSIM'' (Fixed 4 ssim_value [])),
        (Column 1, Info (Prose Ssim_note)),
        (Column 2, Metric ''PSNR'' (Fixed 2 psnr_value '' dB'')),
        (Column 2, Info (Prose Psnr_note)),
        (Page, Subheader ''Color Histograms''),
        (Page, Write (Prose Histograms_text)),
        (Page, Pyplot (Subplots 1 3 (15, 5)
           [(1, Plot_histogram (rescale env src) ''Source''),
            (2, Plot_histogram (rescale env gen) ''Generated''),
            (3, Plot_histogram (rescale env tar) ''Target'')])),
        (Page, Subheader ''Difference Map''),
        (Page, Columns_weighted [1, 2]),
        (Column 1, Pyplot (Made diff_fig)),
        (Column 2, Write (Prose Difference_text)),
        (Column 2, Metric ''Mean Difference'' (Fixed 4 mean_diff [])),
        (Column 2, Info (Prose Mean_difference_note)),
        (Page, Subheader ''Color Channels''),
        (Page, Write (Prose Channels_text)),
        (Page, Pyplot (Made chan_gen)),
        (Page, Pyplot (Made chan_tar)),
        (Page, Subheader ''LAB Color Space''),
        (Page, Write (Prose Lab_text)),
        (Page, Pyplot (Made lab_gen)),
        (Page, Pyplot (Made lab_tar))] @ ws"
proof -
  have d: "decide env inp (init_state s) = (Inr True :: 'x exn + bool)"
    using assms(3) by (rule decide_go)
  note r = run_reported [OF assms(1,2) d assms(4-12)]
  show ?thesis
    unfolding r
    by (simp add: accuracy_widgets_def analysis_widgets_def del: One_nat_def
        split: sum.splits)
qed

theorem results_rendered_in_order_witness:
  "src_upload both_uploaded = Some 1 \<and> tar_upload both_uploaded = Some 2 \<and>
   (button_clicked both_uploaded \<or> fresh_state ''processed'' = None \<or>
      fresh_state ''processed'' = Some (PyBool False)) \<and>
   process_images demo_env 1 2 = Inr (3, 1, 2, [- 1, 0, 1], [1, 0, - 1], [0, 0, 0]) \<and>
   plot_histogram demo_env (rescale demo_env [- 1, 0, 1]) 1 ''Source'' = Inr () \<and>
   plot_histogram demo_env (rescale demo_env [1, 0, - 1]) 2 ''Generated'' = Inr () \<and>
   plot_histogram demo_env (rescale demo_env [0, 0, 0]) 3 ''Target'' = Inr () \<and>
   plot_difference_map demo_env (rescale demo_env [0, 0, 0]) (rescale demo_env [1, 0, - 1]) = Inr (50, 3) \<and>
   plot_color_channels demo_env (rescale demo_env [1, 0, - 1]) ''Generated Image Color Channels'' = Inr 90 \<and>
   plot_color_channels demo_env (rescale demo_env [0, 0, 0]) ''Target Image Color Channels'' = Inr 87 \<and>
   plot_lab_channels demo_env (rescale demo_env [1, 0, - 1]) ''Generated Image in LAB Color Space'' = Inr 104 \<and>
   plot_lab_channels demo_env (rescale demo_env [0, 0, 0]) ''Target Image in LAB Color Space'' = Inr 101 \<and>
   (\<exists>ws. rendered (snd (run demo_env both_uploaded fresh_state)) =
       page_top @
       [(Page, Button ''Process Images''),
        (Page, Spinner ''Processing images...''),
        (Page, Pyplot (Made 3)),
        (Page, Subheader ''Accuracy Metrics''),
        (Page, Columns 2),
        (Column 1, Metric ''SSIM'' (Fixed 4 1 [])),
        (Column 1, Info (Prose Ssim_note)),
        (Column 2, Metric ''PSNR'' (Fixed 2 2 '' dB'')),
        (Column 2, Info (Prose Psnr_note)),
        (Page, Subheader ''Color Histograms''),
        (Page, Write (Prose Histograms_text)),
        (Page, Pyplot (Subplots 1 3 (15, 5)
           [(1, Plot_histogram (rescale demo_env [- 1, 0, 1]) ''Source''),
            (2, Plot_histogram (rescale demo_env [1, 0, - 1]) ''Generated''),
            (3, Plot_histogram (rescale demo_env [0, 0, 0]) ''Target'')])),
        (Page, Subheader ''Difference Map''),
        (Page, Columns_weighted [1, 2]),
        (Column 1, Pyplot (Made 50)),
        (Column 2, Write (Prose Difference_text)),
        (Column 2, Metric ''Mean Difference'' (Fixed 4 3 [])),
        (Column 2, Info (Prose Mean_difference_note)),
        (Page, Subheader ''Color Channels''),
        (Page, Write (Prose Channels_text)),
        (Page, Pyplot (Made 90)),
        (Page, Pyplot (Made 87)),
        (Page, Subheader ''LAB Color Space''),
        (Page, Write (Prose Lab_text)),
        (Page, Pyplot (Made 104)),
        (Page, Pyplot (Made 101))] @ ws)"
proof -
  have 1: "src_upload both_uploaded = Some 1" and 2: "tar_upload both_uploaded = Some 2"
    by (simp_all add: both_uploaded_def)
  have 3: "button_clicked both_uploaded \<or> fresh_state ''processed'' = None \<or>
      fresh_state ''processed'' = Some (PyBool False)"
    by (simp add: fresh_state_def)
  have 4: "process_images demo_env 1 2 = Inr (3, 1, 2, [- 1, 0, 1], [1, 0, - 1], [0, 0, 0])"
    by (simp add: demo_env_def)
  have 5: "plot_histogram demo_env (rescale demo_env [- 1, 0, 1]) 1 ''Source'' = Inr ()"
    and 6: "plot_histogram demo_env (rescale demo_env [1, 0, - 1]) 2 ''Generated'' = Inr ()"
    and 7: "plot_histogram demo_env (rescale demo_env [0, 0, 0]) 3 ''Target'' = Inr ()"
    and 8: "plot_difference_map demo_env (rescale demo_env [0, 0, 0]) (rescale demo_env [1, 0, - 1]) = Inr (50, 3)"
    by (simp_all add: demo_env_def)
  have 9: "plot_color_channels demo_env (rescale demo_env [1, 0, - 1])
      ''Generated Image Color Channels'' = Inr 90"
    and 10: "plot_color_channels demo_env (rescale demo_env [0, 0, 0])
      ''Target Image Color Channels'' = Inr 87"
    and 11: "plot_lab_channels demo_env (rescale demo_env [1, 0, - 1])
      ''Generated Image in LAB Color Space'' = Inr 104"
    and 12: "plot_lab_channels demo_env (rescale demo_env [0, 0, 0])
      ''Target Image in LAB Color Space'' = Inr 101"
    by (simp_all add: demo_env_def)
  note shown = results_rendered_in_order
    [where inp = both_uploaded and s = fresh_state and env = demo_env,
     OF 1 2 3 4 5 6 7 8 9 10 11 12]
  from 1 2 3 4 5 6 7 8 9 10 11 12 shown show ?thesis by (intro conjI)
qed

subsection \<open>The download buttons\<close>

text \<open>
  C5. A run where processing fires and every call into the collaborator returns renders
  exactly three download buttons, in this order. The first and the third serve the
  uploaded file objects themselves, source and target, with nothing done to them. The
  second, named \<open>generated_image.png\<close> with MIME type \<open>image/png\<close>, serves what
  \<open>tobytes()\<close> returns for \<open>((gen + 1) / 2 * 255).astype(np.uint8)\<close>, where \<open>gen\<close> is
  the generated array \<open>process_images\<close> returned: the bytes of the array as numpy gives
  them, with no encoding step between them and the button. The arithmetic, the cast and
  \<open>tobytes\<close> are numpy's own, whatever they compute.
\<close>

theorem download_buttons_serve_uploads_and_raw_bytes:
  fixes env :: "('f, 'g, 'm, 'a, 'x) libraries"
  assumes "src_upload inp = Some f" and "tar_upload inp = Some g"
    and "button_clicked inp \<or> s ''processed'' = None \<or> s ''processed'' = Some (PyBool False)"
    and "process_images env f g = Inr (fig, ssim_value, psnr_value, src, gen, tar)"
    and "plot_histogram env (rescale env src) 1 ''Source'' = Inr ()"
    and "plot_histogram env (rescale env gen) 2 ''Generated'' = Inr ()"
    and "plot_histogram env (rescale env tar) 3 ''Target'' = Inr ()"
    and "plot_difference_map env (rescale env tar) (rescale env gen) = Inr (diff_fig, mean_diff)"
    and "plot_color_channels env (rescale env gen) ''Generated Image Color Channels'' = Inr chan_gen"
    and "plot_color_channels env (rescale env tar) ''Target Image Color Channels'' = Inr chan_tar"
    and "plot_lab_channels env (rescale env gen) ''Generated Image in LAB Color Space'' = Inr lab_gen"
    and "plot_lab_channels env (rescale env tar) ''Target Image in LAB Color Space'' = Inr lab_tar"
  shows "filter (\<lambda>x. is_download (snd x)) (rendered (snd (run env inp s))) =
     [(Column 1, Download_button ''Download Source Image'' (File f)
          ''source_image.png'' ''image/png''),
      (Column 2, Download_button ''Download Generated Image''
          (Bytes (tobytes env (astype_uint8 env
             (arr_times env (arr_div env (arr_plus env gen 1) 2) 255))))
          ''generated_image.png'' ''image/png''),
      (Column 3, Download_button ''Download Target Image'' (File g)
          ''target_image.png'' ''image/png'')]"
proof -
  have d: "decide env inp (init_state s) = (Inr True :: 'x exn + bool)"
    using assms(3) by (rule decide_go)
  note r = run_reported [OF assms(1,2) d assms(4-12)]
  show ?thesis
    unfolding r
    by (simp add: page_top_def accuracy_widgets_def analysis_widgets_def
        download_widgets_def comparison_widgets_def slider_widgets_def page_bottom_def
        gen_img_bytes_def rescale_def split: sum.splits)
qed

theorem download_buttons_serve_uploads_and_raw_bytes_witness:
  "src_upload both_uploaded = Some 1 \<and> tar_upload both_uploaded = Some 2 \<and>
   (button_clicked both_uploaded \<or> fresh_state ''processed'' = None \<or>
      fresh_state ''processed'' = Some (PyBool False)) \<and>
   process_images demo_env 1 2 = Inr (3, 1, 2, [- 1, 0, 1], [1, 0, - 1], [0, 0, 0]) \<and>
   plot_histogram demo_env (rescale demo_env [- 1, 0, 1]) 1 ''Source'' = Inr () \<and>
   plot_histogram demo_env (rescale demo_env [1, 0, - 1]) 2 ''Generated'' = Inr () \<and>
   plot_histogram demo_env (rescale demo_env [0, 0, 0]) 3 ''Target'' = Inr () \<and>
   plot_difference_map demo_env (rescale demo_env [0, 0, 0]) (rescale demo_env [1, 0, - 1]) = Inr (50, 3) \<and>
   plot_color_channels demo_env (rescale demo_env [1, 0, - 1]) ''Generated Image Color Channels'' = Inr 90 \<and>
   plot_color_channels demo_env (rescale demo_env [0, 0, 0]) ''Target Image Color Channels'' = Inr 87 \<and>
   plot_lab_channels demo_env (rescale demo_env [1, 0, - 1]) ''Generated Image in LAB Color Space'' = Inr 104 \<and>
   plot_lab_channels demo_env (rescale demo_env [0, 0, 0]) ''Target Image in LAB Color Space'' = Inr 101 \<and>
   filter (\<lambda>x. is_download (snd x)) (rendered (snd (run demo_env both_uploaded fresh_state))) =
     [(Column 1, Download_button ''Download Source Image'' (File 1)
          ''source_image.png'' ''image/png''),
      (Column 2, Download_button ''Download Generated Image'' (Bytes [255, 127, 0])
          ''generated_image.png'' ''image/png''),
      (Column 3, Download_button ''Download Target Image'' (File 2)
          ''target_image.png'' ''image/png'')]"
proof -
  have 1: "src_upload both_uploaded = Some 1" and 2: "tar_upload both_uploaded = Some 2"
    by (simp_all add: both_uploaded_def)
  have 3: "button_clicked both_uploaded \<or> fresh_state ''processed'' = None \<or>
      fresh_state ''processed'' = Some (PyBool False)"
    by (simp add: fresh_state_def)
  have 4: "process_images demo_env 1 2 = Inr (3, 1, 2, [- 1, 0, 1], [1, 0, - 1], [0, 0, 0])"
    by (simp add: demo_env_def)
  have 5: "plot_histogram demo_env (rescale demo_env [- 1, 0, 1]) 1 ''Source'' = Inr ()"
    and 6: "plot_histogram demo_env (rescale demo_env [1, 0, - 1]) 2 ''Generated'' = Inr ()"
    and 7: "plot_histogram demo_env (rescale demo_env [0, 0, 0]) 3 ''Target'' = Inr ()"
    and 8: "plot_difference_map demo_env (rescale demo_env [0, 0, 0]) (rescale demo_env [1, 0, - 1]) = Inr (50, 3)"
    by (simp_all add: demo_env_def)
  have 9: "plot_color_channels demo_env (rescale demo_env [1, 0, - 1])
      ''Generated Image Color Channels'' = Inr 90"
    and 10: "plot_color_channels demo_env (rescale demo_env [0, 0, 0])
      ''Target Image Color Channels'' = Inr 87"
    and 11: "plot_lab_channels demo_env (rescale demo_env [1, 0, - 1])
      ''Generated Image in LAB Color Space'' = Inr 104"
    and 12: "plot_lab_channels demo_env (rescale demo_env [0, 0, 0])
      ''Target Image in LAB Color Space'' = Inr 101"
    by (simp_all add: demo_env_def)
  note served = download_buttons_serve_uploads_and_raw_bytes
    [where inp = both_uploaded and s = fresh_state and env = demo_env,
     OF 1 2 3 4 5 6 7 8 9 10 11 12]
  have b: "tobytes demo_env (astype_uint8 demo_env
      (arr_times demo_env (arr_div demo_env (arr_plus demo_env [1, 0, - 1] 1) 2) 255)) =
      [255, 127, 0]"
    by (simp add: demo_env_def)
  have c: "filter (\<lambda>x. is_download (snd x))
      (rendered (snd (run demo_env both_uploaded fresh_state))) =
     [(Column 1, Download_button ''Download Source Image'' (File 1)
          ''source_image.png'' ''image/png''),
      (Column 2, Download_button ''Download Generated Image'' (Bytes [255, 127, 0])
          ''generated_image.png'' ''image/png''),
      (Column 3, Download_button ''Download Target Image'' (File 2)
          ''target_image.png'' ''image/png'')]"
    unfolding served b by (rule refl)
  from 1 2 3 4 5 6 7 8 9 10 11 12 c show ?thesis by (intro conjI)
qed

subsection \<open>A run that completes\<close>


subsection \<open>The comparison slider\<close>





end
